theory Spec2Isabelle
  imports
    Complex_Main
    "HOL-Library.AList"
    "HOL-Library.Sublist"
    "HOL-Library.Char_ord"
    "HOL-Library.List_Lexorder"
    "HOL-Library.Multiset"
begin

section \<open>Order Classifier (modules/order\_filter.py)\<close>

text \<open>
  An order line as the Salesforce feed delivers it.  The nested \<open>Order\<close> relationship
  is \<open>None\<close> when the key is absent (the code then reads \<open>{}\<close>); inside it a reason
  is \<open>None\<close> when the key is absent or null.  \<open>PR_MSISDN__c\<close> is \<open>None\<close> when absent or
  null, \<open>CreatedDate\<close> when absent (the code then reads \<open>""\<close>).  Strings are lists of
  code units; Python compares strings lexicographically by code point, which is the
  order of \<open>List_Lexorder\<close> over \<open>Char_ord\<close>.
\<close>

record order_obj =
  vlocity_cmt__Reason__c :: "string option"
  Type :: "string option"

record order_item =
  PR_MSISDN__c :: "string option"
  Order :: "order_obj option"
  CreatedDate :: "string option"

text \<open>\<open>str.lower()\<close>, as far as it can produce or destroy an occurrence of an ASCII
  word: the capital Latin letters are mapped to their small forms, every other code
  unit is kept.\<close>

definition lower_char :: "char \<Rightarrow> char" where
  "lower_char c =
     (case map_of (zip ''ABCDEFGHIJKLMNOPQRSTUVWXYZ'' ''abcdefghijklmnopqrstuvwxyz'') c of
        None \<Rightarrow> c
      | Some l \<Rightarrow> l)"

definition lower :: "string \<Rightarrow> string" where
  "lower s = map lower_char s"

text \<open>Python's \<open>sub in s\<close> on strings.\<close>

fun str_contains :: "string \<Rightarrow> string \<Rightarrow> bool" where
  "str_contains sub [] = (sub = [])"
| "str_contains sub (c # cs) = (prefix sub (c # cs) \<or> str_contains sub cs)"

text \<open>The reason as the loop body of \<open>filter_orders\<close> normalises it:
  \<open>order.get("Order", {}).get("vlocity_cmt__Reason__c", "")\<close>, then \<open>""\<close> for null and
  the lower-cased text otherwise.\<close>

definition normalised_reason :: "order_item \<Rightarrow> string" where
  "normalised_reason order =
     (case Order order of
        None \<Rightarrow> lower ''''
      | Some order_obj \<Rightarrow>
          (case vlocity_cmt__Reason__c order_obj of
             None \<Rightarrow> ''''
           | Some reason \<Rightarrow> lower reason))"

fun filter_orders :: "order_item list \<Rightarrow> order_item list" where
  "filter_orders [] = []"
| "filter_orders (order # orders) =
     (if str_contains ''disconnect'' (normalised_reason order)
      then filter_orders orders
      else order # filter_orders orders)"

text \<open>\<open>group_by_msisdn\<close>: the dictionary \<open>grouped\<close> is an association list in insertion
  order; \<open>AList.update\<close> overwrites in place or appends, as a Python dict does.\<close>

definition created_date :: "order_item \<Rightarrow> string" where
  "created_date order = (case CreatedDate order of None \<Rightarrow> '''' | Some d \<Rightarrow> d)"

definition group_step :: "(string \<times> order_item) list \<Rightarrow> order_item \<Rightarrow> (string \<times> order_item) list" where
  "group_step grouped order =
     (case PR_MSISDN__c order of
        None \<Rightarrow> grouped
      | Some msisdn \<Rightarrow>
          if msisdn = [] then grouped
          else (case map_of grouped msisdn of
                  None \<Rightarrow> AList.update msisdn order grouped
                | Some existing \<Rightarrow>
                    if created_date order > created_date existing
                    then AList.update msisdn order grouped
                    else grouped))"

definition group_by_msisdn :: "order_item list \<Rightarrow> (string \<times> order_item) list" where
  "group_by_msisdn orders = foldl group_step [] orders"


section \<open>Python values and exceptions\<close>

text \<open>
  The asset bundle handed to the rule engine and the raw records of the record source
  are JSON-shaped Python values.  Numbers are modelled by their exact value (a finite
  float and an int denote a real number, and the comparisons with zero the engine
  performs agree on it); a dict is an association list whose first binding of a key
  is the one \<open>get\<close> finds.
\<close>

datatype pyval =
    PNone
  | PBool bool
  | PNum real
  | PStr string
  | PList "pyval list"
  | PDict "(string \<times> pyval) list"

datatype exn =
    AttributeError
  | TypeError
  | ClientError string

definition bind_exn :: "exn + 'a \<Rightarrow> ('a \<Rightarrow> exn + 'b) \<Rightarrow> exn + 'b" where
  "bind_exn m f = (case m of Inl e \<Rightarrow> Inl e | Inr v \<Rightarrow> f v)"

text \<open>\<open>bool(v)\<close> / \<open>if v\<close>.\<close>

fun truthy :: "pyval \<Rightarrow> bool" where
  "truthy PNone = False"
| "truthy (PBool b) = b"
| "truthy (PNum x) = (x \<noteq> 0)"
| "truthy (PStr s) = (s \<noteq> [])"
| "truthy (PList xs) = (xs \<noteq> [])"
| "truthy (PDict d) = (d \<noteq> [])"

text \<open>\<open>isinstance(v, dict)\<close>.\<close>

fun is_dict :: "pyval \<Rightarrow> bool" where
  "is_dict (PDict d) = True"
| "is_dict v = False"

text \<open>\<open>v.get(key, default)\<close>: only a dict has the method.\<close>

fun py_get_default :: "pyval \<Rightarrow> string \<Rightarrow> pyval \<Rightarrow> exn + pyval" where
  "py_get_default (PDict d) key dflt = Inr (case map_of d key of None \<Rightarrow> dflt | Some v \<Rightarrow> v)"
| "py_get_default v key dflt = Inl AttributeError"

definition py_get :: "pyval \<Rightarrow> string \<Rightarrow> exn + pyval" where
  "py_get v key = py_get_default v key PNone"

text \<open>\<open>for x in v\<close>: a list yields its elements, a string its characters, a dict
  its keys; nothing else is iterable.\<close>

fun py_iter :: "pyval \<Rightarrow> exn + pyval list" where
  "py_iter (PList xs) = Inr xs"
| "py_iter (PStr s) = Inr (map (\<lambda>c. PStr [c]) s)"
| "py_iter (PDict d) = Inr (map (\<lambda>kv. PStr (fst kv)) d)"
| "py_iter v = Inl TypeError"

text \<open>Python's \<open>==\<close> on these values: \<open>True == 1\<close> and \<open>False == 0\<close>, lists
  compare elementwise, dicts as mappings.\<close>

fun py_eq :: "pyval \<Rightarrow> pyval \<Rightarrow> bool"
  and py_eq_list :: "pyval list \<Rightarrow> pyval list \<Rightarrow> bool"
  and py_eq_items :: "(string \<times> pyval) list \<Rightarrow> (string \<times> pyval) list \<Rightarrow> bool"
  and py_eq_lookup :: "string \<Rightarrow> pyval \<Rightarrow> (string \<times> pyval) list \<Rightarrow> bool"
where
  "py_eq PNone PNone = True"
| "py_eq (PBool a) (PBool b) = (a = b)"
| "py_eq (PBool a) (PNum y) = ((if a then 1 else 0) = y)"
| "py_eq (PNum x) (PBool b) = (x = (if b then 1 else 0))"
| "py_eq (PNum x) (PNum y) = (x = y)"
| "py_eq (PStr s) (PStr t) = (s = t)"
| "py_eq (PList xs) (PList ys) = py_eq_list xs ys"
| "py_eq (PDict d) (PDict e) = (length d = length e \<and> py_eq_items d e)"
| "py_eq v w = False"
| "py_eq_list [] [] = True"
| "py_eq_list (x # xs) (y # ys) = (py_eq x y \<and> py_eq_list xs ys)"
| "py_eq_list xs ys = False"
| "py_eq_items [] e = True"
| "py_eq_items ((k, v) # d) e = (py_eq_lookup k v e \<and> py_eq_items d e)"
| "py_eq_lookup k v [] = False"
| "py_eq_lookup k v ((k', w) # e) = (if k = k' then py_eq v w else py_eq_lookup k v e)"

section \<open>Rule Evaluation Engine (modules/validation\_engine.py)\<close>

text \<open>
  A check descriptor of the configuration.  An option field is \<open>None\<close> when the key
  is absent; \<open>expected_value\<close> is \<open>PNone\<close> when absent, which is what \<open>get\<close> returns.
\<close>

record check =
  check_id :: "string option"
  validation_type :: "string option"
  logic :: "string option"
  allow_zero :: "bool option"
  field_path :: "string option"
  expected_value :: pyval

text \<open>A check set of the configuration: its \<open>checks\<close> list, and whether the mapping has
  any other key (an empty mapping is falsy in \<open>if not reason_config\<close>).\<close>

record check_set_config =
  cs_checks :: "check list option"
  cs_other_keys :: bool

record validations_config =
  vc_basic :: "check_set_config option"
  vc_reason_based :: "(string \<times> check_set_config) list option"

text \<open>A check result set, as the engine writes it and the response builder reads it.
  Every key may be missing: the \<open>SKIPPED\<close> result carries only \<open>status\<close> and \<open>reason\<close>.\<close>

record result_set =
  rs_status :: "string option"
  rs_reason :: "string option"
  rs_checks :: "(string option \<times> bool) list option"
  rs_passed :: "int option"
  rs_failed :: "int option"
  rs_total :: "int option"

record validations =
  v_basic :: result_set
  v_reason_based :: "(string \<times> result_set) list"

text \<open>\<open>_get_nested_value\<close>: \<open>path.split('.')\<close>, then one \<open>get\<close> per key while the
  value is a dict.\<close>

fun split_on :: "char \<Rightarrow> string \<Rightarrow> string list" where
  "split_on sep [] = [[]]"
| "split_on sep (c # cs) =
     (if c = sep then [] # split_on sep cs
      else (case split_on sep cs of
              w # ws \<Rightarrow> (c # w) # ws
            | [] \<Rightarrow> [[c]]))"

fun nested_loop :: "pyval \<Rightarrow> string list \<Rightarrow> pyval" where
  "nested_loop v [] = v"
| "nested_loop v (key # keys) =
     (case v of
        PDict d \<Rightarrow> nested_loop (case map_of d key of None \<Rightarrow> PNone | Some w \<Rightarrow> w) keys
      | _ \<Rightarrow> PNone)"

definition get_nested_value :: "pyval \<Rightarrow> string \<Rightarrow> pyval" where
  "get_nested_value data path = nested_loop data (split_on (CHR ''.'') path)"

text \<open>The four tests every charge strategy writes out on the value of a \<open>charges\<close>
  field: present, a dict, one of the two values not null and, unless zero is allowed,
  one of them neither null nor equal to zero.\<close>

definition charges_valid :: "pyval \<Rightarrow> bool \<Rightarrow> bool" where
  "charges_valid charges allow_zero_flag =
     (case charges of
        PNone \<Rightarrow> False
      | PDict c \<Rightarrow>
          (let one_time = (case map_of c ''one_time'' of None \<Rightarrow> PNone | Some v \<Rightarrow> v);
               recurring = (case map_of c ''recurring'' of None \<Rightarrow> PNone | Some v \<Rightarrow> v)
           in if one_time = PNone \<and> recurring = PNone then False
              else if \<not> allow_zero_flag
                      \<and> (one_time = PNone \<or> py_eq one_time (PNum 0))
                      \<and> (recurring = PNone \<or> py_eq recurring (PNum 0)) then False
              else True)
      | _ \<Rightarrow> False)"

definition validate_device_charges :: "pyval \<Rightarrow> bool \<Rightarrow> exn + bool" where
  "validate_device_charges assets allow_zero_flag =
     bind_exn (py_get assets ''device'') (\<lambda>device.
       if \<not> truthy device then Inr False
       else bind_exn (py_get device ''charges'') (\<lambda>charges.
              Inr (charges_valid charges allow_zero_flag)))"

fun children_charges_loop :: "pyval list \<Rightarrow> bool \<Rightarrow> exn + bool" where
  "children_charges_loop [] allow_zero_flag = Inr True"
| "children_charges_loop (child # rest) allow_zero_flag =
     bind_exn (py_get child ''charges'') (\<lambda>charges.
       if charges_valid charges allow_zero_flag
       then children_charges_loop rest allow_zero_flag
       else Inr False)"

definition validate_line_children_charges :: "pyval \<Rightarrow> bool \<Rightarrow> exn + bool" where
  "validate_line_children_charges assets allow_zero_flag =
     bind_exn (py_get_default assets ''line_children'' (PList [])) (\<lambda>line_children.
       if \<not> truthy line_children then Inr True
       else bind_exn (py_iter line_children) (\<lambda>children.
              children_charges_loop children allow_zero_flag))"

definition validate_device_children_charges :: "pyval \<Rightarrow> bool \<Rightarrow> exn + bool" where
  "validate_device_children_charges assets allow_zero_flag =
     bind_exn (py_get_default assets ''device_children'' (PList [])) (\<lambda>device_children.
       if \<not> truthy device_children then Inr True
       else bind_exn (py_iter device_children) (\<lambda>children.
              children_charges_loop children allow_zero_flag))"

fun sim_cards_of :: "pyval list \<Rightarrow> exn + pyval list" where
  "sim_cards_of [] = Inr []"
| "sim_cards_of (c # cs) =
     bind_exn (py_get c ''product_code'') (\<lambda>code.
       bind_exn (sim_cards_of cs) (\<lambda>rest.
         Inr (if py_eq code (PStr ''PR_B2C_SIM_Card'') then c # rest else rest)))"

definition validate_sim_card_charges :: "pyval \<Rightarrow> bool \<Rightarrow> exn + bool" where
  "validate_sim_card_charges assets allow_zero_flag =
     bind_exn (py_get_default assets ''line_children'' (PList [])) (\<lambda>line_children.
       bind_exn (py_iter line_children) (\<lambda>children.
         bind_exn (sim_cards_of children) (\<lambda>sim_cards.
           case sim_cards of
             [] \<Rightarrow> Inr False
           | sim # _ \<Rightarrow>
               bind_exn (py_get sim ''charges'') (\<lambda>charges.
                 Inr (charges_valid charges allow_zero_flag)))))"

definition check_charges :: "check \<Rightarrow> pyval \<Rightarrow> exn + bool" where
  "check_charges chk assets =
     (let allow_zero_flag = (case allow_zero chk of None \<Rightarrow> True | Some b \<Rightarrow> b)
      in if logic chk = Some ''validate_all_line_children_charges''
           then validate_line_children_charges assets allow_zero_flag
         else if logic chk = Some ''validate_device_charges''
           then validate_device_charges assets allow_zero_flag
         else if logic chk = Some ''validate_all_device_children_charges''
           then validate_device_children_charges assets allow_zero_flag
         else if logic chk = Some ''validate_sim_card_charges''
           then validate_sim_card_charges assets allow_zero_flag
         else Inr False)"

text \<open>\<open>any(c.get('product_code') == 'PR_B2C_SIM_Card' for c in line_children)\<close> stops at
  the first match.\<close>

fun any_sim_card :: "pyval list \<Rightarrow> exn + bool" where
  "any_sim_card [] = Inr False"
| "any_sim_card (c # cs) =
     bind_exn (py_get c ''product_code'') (\<lambda>code.
       if py_eq code (PStr ''PR_B2C_SIM_Card'') then Inr True else any_sim_card cs)"

definition check_presence :: "check \<Rightarrow> pyval \<Rightarrow> exn + bool" where
  "check_presence chk assets =
     (if logic chk = Some ''search_line_children_for_sim_card''
        then bind_exn (py_get_default assets ''line_children'' (PList [])) (\<lambda>line_children.
               bind_exn (py_iter line_children) any_sim_card)
      else if logic chk = Some ''validate_device_exists''
        then bind_exn (py_get assets ''device'') (\<lambda>device.
               if is_dict device
               then bind_exn (py_get device ''id'') (\<lambda>i. Inr (device \<noteq> PNone \<and> truthy i))
               else Inr False)
      else Inr False)"

definition check_status :: "check \<Rightarrow> pyval \<Rightarrow> exn + bool" where
  "check_status chk assets =
     (let path = (case field_path chk of None \<Rightarrow> '''' | Some p \<Rightarrow> p);
          v = get_nested_value assets path
      in Inr (py_eq v (expected_value chk)))"

definition check_custom :: "check \<Rightarrow> pyval \<Rightarrow> exn + bool" where
  "check_custom chk assets = Inr True"

text \<open>\<open>_execute_check\<close>: the dispatch is the body of a \<open>try\<close>; the handler
  \<open>except Exception\<close> returns \<open>False\<close>.\<close>

definition dispatch_check :: "check \<Rightarrow> pyval \<Rightarrow> exn + bool" where
  "dispatch_check chk assets =
     (if validation_type chk = Some ''presence'' then check_presence chk assets
      else if validation_type chk = Some ''charges'' then check_charges chk assets
      else if validation_type chk = Some ''status'' then check_status chk assets
      else if validation_type chk = Some ''custom'' then check_custom chk assets
      else Inr False)"

definition execute_check :: "check \<Rightarrow> pyval \<Rightarrow> exn + bool" where
  "execute_check chk assets =
     (case dispatch_check chk assets of
        Inr result \<Rightarrow> Inr result
      | Inl e \<Rightarrow> Inr False)"

text \<open>The loop \<open>for check in checks: results[check_id] = self._execute_check(...)\<close> of
  \<open>_run_basic_checks\<close> and \<open>_run_reason_checks\<close>, and the statistics computed after it.
  An exception leaving \<open>_execute_check\<close> would leave the loop.\<close>

fun run_checks_loop ::
  "check list \<Rightarrow> pyval \<Rightarrow> (string option \<times> bool) list \<Rightarrow> exn + (string option \<times> bool) list" where
  "run_checks_loop [] assets results = Inr results"
| "run_checks_loop (chk # chks) assets results =
     bind_exn (execute_check chk assets) (\<lambda>result.
       run_checks_loop chks assets (AList.update (check_id chk) result results))"

definition calculate_stats :: "(string option \<times> bool) list \<Rightarrow> result_set" where
  "calculate_stats results =
     (let passed = int (length (filter snd results));
          failed = int (length results) - passed
      in \<lparr> rs_status = Some (if failed = 0 then ''PASSED'' else ''FAILED''),
           rs_reason = None,
           rs_checks = Some results,
           rs_passed = Some passed,
           rs_failed = Some failed,
           rs_total = Some (int (length results)) \<rparr>)"

definition run_basic_checks :: "validations_config \<Rightarrow> pyval \<Rightarrow> exn + result_set" where
  "run_basic_checks cfg assets =
     (let chks = (case vc_basic cfg of
                    None \<Rightarrow> []
                  | Some basic_config \<Rightarrow> (case cs_checks basic_config of None \<Rightarrow> [] | Some cs \<Rightarrow> cs))
      in bind_exn (run_checks_loop chks assets []) (\<lambda>results. Inr (calculate_stats results)))"

definition skipped_result :: "string \<Rightarrow> result_set" where
  "skipped_result reason =
     \<lparr> rs_status = Some ''SKIPPED'',
       rs_reason = Some (''No validation config for '' @ [CHR 0x27] @ reason @ [CHR 0x27]),
       rs_checks = None, rs_passed = None, rs_failed = None, rs_total = None \<rparr>"

definition run_reason_checks :: "validations_config \<Rightarrow> string \<Rightarrow> pyval \<Rightarrow> exn + result_set" where
  "run_reason_checks cfg reason assets =
     (case map_of (case vc_reason_based cfg of None \<Rightarrow> [] | Some rb \<Rightarrow> rb) reason of
        None \<Rightarrow> Inr (skipped_result reason)
      | Some reason_config \<Rightarrow>
          if cs_checks reason_config = None \<and> \<not> cs_other_keys reason_config
          then Inr (skipped_result reason)
          else
            bind_exn (run_checks_loop (case cs_checks reason_config of None \<Rightarrow> [] | Some cs \<Rightarrow> cs)
                        assets [])
              (\<lambda>results. Inr (calculate_stats results)))"

text \<open>\<open>validate_for_msisdn\<close>: the basic set, then one set per truthy reason, stored
  under the reason.\<close>

fun reason_loop ::
  "validations_config \<Rightarrow> pyval \<Rightarrow> string option list \<Rightarrow> (string \<times> result_set) list
     \<Rightarrow> exn + (string \<times> result_set) list" where
  "reason_loop cfg assets [] reason_results = Inr reason_results"
| "reason_loop cfg assets (r # rs) reason_results =
     (case r of
        None \<Rightarrow> reason_loop cfg assets rs reason_results
      | Some reason \<Rightarrow>
          if reason = [] then reason_loop cfg assets rs reason_results
          else bind_exn (run_reason_checks cfg reason assets) (\<lambda>res.
                 reason_loop cfg assets rs (AList.update reason res reason_results)))"

definition validate_for_msisdn ::
  "validations_config \<Rightarrow> pyval \<Rightarrow> string option list \<Rightarrow> exn + validations" where
  "validate_for_msisdn cfg assets order_reasons =
     bind_exn (run_basic_checks cfg assets) (\<lambda>basic_results.
       bind_exn (reason_loop cfg assets order_reasons []) (\<lambda>reason_results.
         Inr \<lparr> v_basic = basic_results, v_reason_based = reason_results \<rparr>))"

section \<open>Order Retriever (modules/order\_fetcher.py)\<close>

text \<open>
  The \<open>order_fetcher\<close> section of the configuration.  The three \<open>ValueError\<close>s the
  retriever raises carry the data their messages are formatted from.
\<close>

record order_fetcher_config =
  fetch_strategy :: "string option"
  order_reason_filter :: "string option"
  valid_order_reasons :: "string list option"

datatype config_error =
    Unknown_fetch_strategy string
  | Reason_filter_required
  | Invalid_reason string "string list"

datatype fetch_error =
    Config_error config_error
  | Client_error string

text \<open>What \<open>sf.query_all(soql)\<close> answers: an exception of the client (\<open>Inl\<close>), a dict with
  or without a \<open>records\<close> list, or something that is not a dict (\<open>None\<close> is the empty
  list here, as \<open>result or []\<close> makes it).\<close>

datatype 'r query_result =
    Result_dict "'r list option"
  | Result_other "'r list"

type_synonym 'r sf_client = "string \<Rightarrow> string + 'r query_result"

definition records_of :: "'r query_result \<Rightarrow> 'r list" where
  "records_of result =
     (case result of
        Result_dict None \<Rightarrow> []
      | Result_dict (Some rs) \<Rightarrow> rs
      | Result_other rs \<Rightarrow> rs)"

text \<open>The two SOQL texts, with the layout of the source's string literal reduced to
  single blanks.\<close>

definition latest_soql :: string where
  "latest_soql =
     ''SELECT PR_MSISDN__c, Order.vlocity_cmt__Reason__c, Order.Id, CreatedDate, ''
     @ ''Order.vlocity_cmt__OrderStatus__c FROM OrderItem WHERE CreatedDate >= YESTERDAY ''
     @ ''AND CreatedDate < TODAY AND Product2.vlocity_cmt__ParentClassCode__c = ''
     @ [CHR 0x27] @ ''PR_B2C_Mobile_Line_Class'' @ [CHR 0x27]
     @ '' AND Product2.Name != '' @ [CHR 0x27] @ ''SIM Card'' @ [CHR 0x27]
     @ '' AND PR_MSISDN__c !=Null and Order.vlocity_cmt__OrderStatus__c =''
     @ [CHR 0x27] @ ''Activated'' @ [CHR 0x27]
     @ '' ORDER BY PR_MSISDN__c, CreatedDate DESC Limit 100''"

definition filtered_soql :: "string \<Rightarrow> string" where
  "filtered_soql reason_filter =
     ''SELECT PR_MSISDN__c, Order.vlocity_cmt__Reason__c, Order.Id, CreatedDate, ''
     @ ''Order.vlocity_cmt__OrderStatus__c FROM OrderItem WHERE CreatedDate >= YESTERDAY ''
     @ ''AND CreatedDate < TODAY AND Order.vlocity_cmt__Reason__c = ''
     @ [CHR 0x27] @ reason_filter @ [CHR 0x27]
     @ '' ORDER BY PR_MSISDN__c, CreatedDate DESC''"

text \<open>Both modes group the records the same way: the first record of an identifier
  stays.\<close>

fun group_first :: "order_item list \<Rightarrow> (string \<times> order_item) list \<Rightarrow> (string \<times> order_item) list" where
  "group_first [] grouped = grouped"
| "group_first (order # records) grouped =
     (case PR_MSISDN__c order of
        None \<Rightarrow> group_first records grouped
      | Some msisdn \<Rightarrow>
          if msisdn = [] then group_first records grouped
          else if map_of grouped msisdn = None
               then group_first records (AList.update msisdn order grouped)
               else group_first records grouped)"

text \<open>A fetch returns its outcome and the queries it sent to the client, in order.\<close>

definition run_query ::
  "order_item sf_client \<Rightarrow> string
     \<Rightarrow> (fetch_error + (string \<times> order_item) list) \<times> string list" where
  "run_query sf soql =
     (case sf soql of
        Inl e \<Rightarrow> (Inl (Client_error e), [soql])
      | Inr result \<Rightarrow>
          (let records = records_of result
           in if records = [] then (Inr [], [soql])
              else (Inr (group_first records []), [soql])))"

definition get_latest_orders ::
  "order_item sf_client \<Rightarrow> order_fetcher_config
     \<Rightarrow> (fetch_error + (string \<times> order_item) list) \<times> string list" where
  "get_latest_orders sf order_config = run_query sf latest_soql"

definition get_filtered_orders ::
  "order_item sf_client \<Rightarrow> order_fetcher_config
     \<Rightarrow> (fetch_error + (string \<times> order_item) list) \<times> string list" where
  "get_filtered_orders sf order_config =
     (case order_reason_filter order_config of
        None \<Rightarrow> (Inl (Config_error Reason_filter_required), [])
      | Some reason_filter \<Rightarrow>
          if reason_filter = [] then (Inl (Config_error Reason_filter_required), [])
          else
            (let valid_reasons =
                   (case valid_order_reasons order_config of None \<Rightarrow> [] | Some vs \<Rightarrow> vs)
             in if valid_reasons \<noteq> [] \<and> reason_filter \<notin> set valid_reasons
                then (Inl (Config_error (Invalid_reason reason_filter valid_reasons)), [])
                else run_query sf (filtered_soql reason_filter)))"

definition get_orders ::
  "order_item sf_client \<Rightarrow> order_fetcher_config
     \<Rightarrow> (fetch_error + (string \<times> order_item) list) \<times> string list" where
  "get_orders sf order_config =
     (let strategy = (case fetch_strategy order_config of None \<Rightarrow> ''latest'' | Some s \<Rightarrow> s)
      in if strategy = ''latest'' then get_latest_orders sf order_config
         else if strategy = ''filtered'' then get_filtered_orders sf order_config
         else (Inl (Config_error (Unknown_fetch_strategy strategy)), []))"

section \<open>Asset Assembler (modules/asset\_fetcher.py)\<close>

text \<open>
  A query template of the configuration, and the record source: \<open>query_all\<close> answers
  a SOQL text with the \<open>records\<close> list of its result, or raises (\<open>Inl\<close>, re-raised by
  every \<open>except\<close> clause of this module as \<open>ClientError\<close>).
\<close>

record query_config =
  qc_fields :: "string list option"
  qc_from_table :: "string option"
  qc_where_conditions :: "string list option"

type_synonym asset_client = "string \<Rightarrow> string + pyval list"

text \<open>\<open>sep.join(parts)\<close> and \<open>s.replace(old, new)\<close>.  \<open>replace\<close> wants a string for
  \<open>new\<close>; the placeholders replaced are not empty.\<close>

fun join :: "string \<Rightarrow> string list \<Rightarrow> string" where
  "join sep [] = []"
| "join sep [p] = p"
| "join sep (p # q # ps) = p @ sep @ join sep (q # ps)"

function str_replace :: "string \<Rightarrow> string \<Rightarrow> string \<Rightarrow> string" where
  "str_replace old new s =
     (if old = [] then new @ concat (map (\<lambda>c. c # new) s)
      else if s = [] then []
      else if prefix old s then new @ str_replace old new (drop (length old) s)
      else hd s # str_replace old new (tl s))"
  by pat_completeness auto
termination
  by (relation "measure (\<lambda>(old, new, s). length s)") (auto simp: prefix_def)

declare str_replace.simps [simp del]

definition py_replace :: "string \<Rightarrow> pyval \<Rightarrow> string \<Rightarrow> exn + string" where
  "py_replace old new s =
     (case new of PStr n \<Rightarrow> Inr (str_replace old n s) | _ \<Rightarrow> Inl TypeError)"

text \<open>\<open>[w.replace(old, new) for w in where_conditions]\<close>.\<close>

fun replace_all :: "string \<Rightarrow> pyval \<Rightarrow> string list \<Rightarrow> exn + string list" where
  "replace_all old new [] = Inr []"
| "replace_all old new (w # ws) =
     bind_exn (py_replace old new w) (\<lambda>w'.
       bind_exn (replace_all old new ws) (\<lambda>ws'. Inr (w' # ws')))"

definition select_soql :: "query_config \<Rightarrow> string list \<Rightarrow> string" where
  "select_soql qc where_conditions =
     ''SELECT '' @ join '', '' (case qc_fields qc of None \<Rightarrow> [] | Some fs \<Rightarrow> fs)
     @ '' FROM '' @ (case qc_from_table qc of None \<Rightarrow> ''Asset'' | Some t \<Rightarrow> t)
     @ (if where_conditions \<noteq> [] then '' WHERE '' @ join '' AND '' where_conditions else [])"

definition query_all :: "asset_client \<Rightarrow> string \<Rightarrow> exn + pyval list" where
  "query_all sf soql = (case sf soql of Inl e \<Rightarrow> Inl (ClientError e) | Inr records \<Rightarrow> Inr records)"

definition lookup_query :: "(string \<times> query_config) list \<Rightarrow> string \<Rightarrow> query_config" where
  "lookup_query queries name =
     (case map_of queries name of
        None \<Rightarrow> \<lparr> qc_fields = None, qc_from_table = None, qc_where_conditions = None \<rparr>
      | Some qc \<Rightarrow> qc)"

definition where_of :: "query_config \<Rightarrow> string list" where
  "where_of qc = (case qc_where_conditions qc of None \<Rightarrow> [] | Some ws \<Rightarrow> ws)"

text \<open>The children summaries written to the log read \<open>child.get("Product2", {})\<close> and
  then \<open>product.get("Name", "Unknown")\<close> for every record.\<close>

fun log_children_summary :: "pyval list \<Rightarrow> exn + unit" where
  "log_children_summary [] = Inr ()"
| "log_children_summary (child # rest) =
     bind_exn (py_get_default child ''Product2'' (PDict [])) (\<lambda>product.
       bind_exn (py_get child ''vlocity_cmt__ProvisioningStatus__c'') (\<lambda>status.
         bind_exn (py_get_default product ''Name'' (PStr ''Unknown'')) (\<lambda>product_name.
           log_children_summary rest)))"

definition get_latest_line ::
  "asset_client \<Rightarrow> (string \<times> query_config) list \<Rightarrow> string \<Rightarrow> exn + pyval" where
  "get_latest_line sf queries msisdn =
     (let qc = lookup_query queries ''latest_line_for_msisdn''
      in bind_exn (replace_all ''{msisdn}'' (PStr msisdn) (where_of qc)) (\<lambda>ws.
           bind_exn (query_all sf (select_soql qc ws @ '' ORDER BY CreatedDate DESC LIMIT 1''))
             (\<lambda>records. Inr (case records of [] \<Rightarrow> PNone | r # _ \<Rightarrow> r))))"

definition get_device_for_line ::
  "asset_client \<Rightarrow> (string \<times> query_config) list \<Rightarrow> string \<Rightarrow> pyval \<Rightarrow> exn + pyval" where
  "get_device_for_line sf queries msisdn asset_reference_id =
     (let qc = lookup_query queries ''device_for_line''
      in bind_exn (replace_all ''{msisdn}'' (PStr msisdn) (where_of qc)) (\<lambda>ws.
           bind_exn (replace_all ''{asset_reference_id}'' asset_reference_id ws) (\<lambda>ws'.
             bind_exn (query_all sf (select_soql qc ws'))
               (\<lambda>records. Inr (case records of [] \<Rightarrow> PNone | r # _ \<Rightarrow> r)))))"

definition get_line_children ::
  "asset_client \<Rightarrow> (string \<times> query_config) list \<Rightarrow> string \<Rightarrow> pyval \<Rightarrow> exn + pyval list" where
  "get_line_children sf queries msisdn line_root_id =
     (let qc = lookup_query queries ''children_for_root_item''
      in bind_exn (replace_all ''{msisdn}'' (PStr msisdn) (where_of qc)) (\<lambda>ws.
           bind_exn (replace_all ''{root_item_id}'' line_root_id ws) (\<lambda>ws'.
             bind_exn (query_all sf (select_soql qc ws')) (\<lambda>records.
               bind_exn (log_children_summary records) (\<lambda>u. Inr records)))))"

definition get_device_children ::
  "asset_client \<Rightarrow> (string \<times> query_config) list \<Rightarrow> pyval \<Rightarrow> exn + pyval list" where
  "get_device_children sf queries device_root_id =
     (let qc = lookup_query queries ''device_children''
      in bind_exn (replace_all ''{device_root_id}'' device_root_id (where_of qc)) (\<lambda>ws.
           bind_exn (query_all sf (select_soql qc ws)) (\<lambda>records.
             bind_exn (log_children_summary records) (\<lambda>u. Inr records))))"

record assets_result =
  ar_latest_line :: pyval
  ar_device :: pyval
  ar_line_children :: "pyval list"
  ar_device_children :: "pyval list"
  ar_error :: "string option"

text \<open>The product name written to the log after a lookup succeeded:
  \<open>asset.get('Product2', {}).get('Name')\<close>.\<close>

definition log_product_name :: "pyval \<Rightarrow> exn + pyval" where
  "log_product_name asset =
     bind_exn (py_get_default asset ''Product2'' (PDict [])) (\<lambda>product. py_get product ''Name'')"

definition get_assets_for_msisdn_v2 ::
  "asset_client \<Rightarrow> (string \<times> query_config) list \<Rightarrow> string \<Rightarrow> exn + assets_result" where
  "get_assets_for_msisdn_v2 sf queries msisdn =
     bind_exn (get_latest_line sf queries msisdn) (\<lambda>latest_line.
       if \<not> truthy latest_line then
         Inr \<lparr> ar_latest_line = PNone, ar_device = PNone, ar_line_children = [],
               ar_device_children = [], ar_error = Some ''No active line found'' \<rparr>
       else
         bind_exn (log_product_name latest_line) (\<lambda>n1.
         bind_exn (py_get latest_line ''vlocity_cmt__AssetReferenceId__c'') (\<lambda>line_asset_ref.
         bind_exn (get_device_for_line sf queries msisdn line_asset_ref) (\<lambda>device.
           if \<not> truthy device then
             Inr \<lparr> ar_latest_line = latest_line, ar_device = PNone, ar_line_children = [],
                   ar_device_children = [], ar_error = Some ''No device found (mandatory)'' \<rparr>
           else
             bind_exn (log_product_name device) (\<lambda>n2.
             bind_exn (py_get device ''vlocity_cmt__RootItemId__c'') (\<lambda>device_root_id.
             bind_exn (py_get latest_line ''vlocity_cmt__RootItemId__c'') (\<lambda>line_root_id.
             bind_exn (get_line_children sf queries msisdn line_root_id) (\<lambda>line_children.
             bind_exn (get_device_children sf queries device_root_id) (\<lambda>device_children.
               Inr \<lparr> ar_latest_line = latest_line, ar_device = device,
                     ar_line_children = line_children,
                     ar_device_children = device_children, ar_error = None \<rparr>)))))))))"

section \<open>Bulk Executor (modules/bulk\_validator.py)\<close>

text \<open>
  What one \<open>requests.post\<close> to the validation endpoint does: it raises, or it answers
  with a status code, a body (\<open>response.json()\<close>, which may raise as well) and the raw
  text.
\<close>

datatype transport_exn =
    RequestException string
  | OtherException string

record http_response =
  status_code :: int
  json_body :: "transport_exn + pyval"
  response_text :: string

type_synonym transport = "string \<Rightarrow> transport_exn + http_response"

text \<open>\<open>str(n)\<close> for the status code in \<open>f"HTTP {response.status_code}"\<close>.\<close>

function digits_of :: "nat \<Rightarrow> string" where
  "digits_of n =
     (if n < 10 then [char_of (48 + n)]
      else digits_of (n div 10) @ [char_of (48 + n mod 10)])"
  by pat_completeness auto
termination
  by (relation "measure id") auto

declare digits_of.simps [simp del]

definition str_of_int :: "int \<Rightarrow> string" where
  "str_of_int i = (if i < 0 then CHR ''-'' # digits_of (nat (- i)) else digits_of (nat i))"

definition error_envelope :: "string \<Rightarrow> string \<Rightarrow> pyval" where
  "error_envelope err msg = PDict [(''error'', PStr err), (''message'', PStr msg)]"

definition envelope_of_exn :: "transport_exn \<Rightarrow> pyval" where
  "envelope_of_exn e =
     (case e of
        RequestException m \<Rightarrow> error_envelope ''Request failed'' m
      | OtherException m \<Rightarrow> error_envelope ''Validation failed'' m)"

definition validate_single_msisdn :: "transport \<Rightarrow> string \<Rightarrow> string \<times> pyval" where
  "validate_single_msisdn post msisdn =
     (case post msisdn of
        Inl e \<Rightarrow> (msisdn, envelope_of_exn e)
      | Inr response \<Rightarrow>
          if status_code response = 200 then
            (case json_body response of
               Inr body \<Rightarrow> (msisdn, body)
             | Inl e \<Rightarrow> (msisdn, envelope_of_exn e))
          else
            (msisdn, error_envelope (''HTTP '' @ str_of_int (status_code response))
                                    (response_text response)))"

text \<open>\<open>_validate_msisdns_batch\<close>: every identifier is submitted to the pool, and the
  results are stored as the futures complete.  \<open>completed\<close> is the order of completion,
  some rearrangement of the submitted list.\<close>

definition validate_msisdns_batch :: "transport \<Rightarrow> string list \<Rightarrow> (string \<times> pyval) list" where
  "validate_msisdns_batch post completed =
     foldl (\<lambda>results msisdn.
              AList.update (fst (validate_single_msisdn post msisdn))
                           (snd (validate_single_msisdn post msisdn)) results)
       [] completed"

text \<open>\<open>round(x, 2)\<close>, to the nearest hundredth, a tie going to the even one; computed on
  the exact value.  The code forms the quotient and the product in binary floating
  point, which can carry a value across a rounding boundary (23 of 160 is 14.37
  there and 14.38 here); the two agree where those operations are exact, as they are
  for \<open>N / N * 100\<close>.\<close>

definition py_round2 :: "real \<Rightarrow> real" where
  "py_round2 x =
     (let y = x * 100; f = \<lfloor>y\<rfloor>
      in (if y - of_int f < 1 / 2 then of_int f
          else if y - of_int f > 1 / 2 then of_int (f + 1)
          else if even f then of_int f else of_int (f + 1)) / 100)"

record batch_summary =
  total_msisdns :: int
  successful_validations :: int
  failed_validations :: int
  success_rate :: real
  output_format :: string

text \<open>The generator \<open>sum(1 for r in validation_results.values() if r.get("status") != "error")\<close>.\<close>

fun count_successful :: "pyval list \<Rightarrow> exn + int" where
  "count_successful [] = Inr 0"
| "count_successful (r # rs) =
     bind_exn (py_get r ''status'') (\<lambda>status.
       bind_exn (count_successful rs) (\<lambda>n.
         Inr (if \<not> py_eq status (PStr ''error'') then 1 + n else n)))"

text \<open>\<open>_format_results\<close>, the summary it prepares before the detailed results are laid
  out around it.\<close>

definition format_results ::
  "(string \<times> order_item) list \<Rightarrow> (string \<times> pyval) list \<Rightarrow> string \<Rightarrow> exn + batch_summary" where
  "format_results grouped_orders validation_results fmt =
     (let total = int (length grouped_orders)
      in bind_exn (count_successful (map snd validation_results)) (\<lambda>successful.
           Inr \<lparr> total_msisdns = total,
                 successful_validations = successful,
                 failed_validations = total - successful,
                 success_rate =
                   (if total > 0 then py_round2 (real_of_int successful / real_of_int total * 100)
                    else 0),
                 output_format = fmt \<rparr>))"

section \<open>Mock record source (modules/mock\_salesforce.py)\<close>

text \<open>
  \<open>MockSalesforceConnection.query_all\<close>: one order line for a query on yesterday's order
  items, three assets (line, device, add-on) for an asset query that mentions the
  identifier \<open>12218071145\<close>, and no record otherwise.
\<close>

definition mock_order_item :: pyval where
  "mock_order_item =
     PDict [(''Id'', PStr ''00uxx000001''),
            (''Order'', PDict [(''Id'', PStr ''a1Bxxxx000001''),
                               (''Type'', PStr ''Change Plan''),
                               (''Status'', PStr ''Submitted''),
                               (''vlocity_cmt__OrderStatus__c'', PStr ''Submitted''),
                               (''vlocity_cmt__Reason__c'', PStr ''Upgrade to Premium Plan''),
                               (''vlocity_cmt__Notes__c'', PStr ''Customer requested upgrade''),
                               (''vlocity_cmt__OrchestrationPlanId__r'',
                                  PDict [(''Id'', PStr ''a3Cxxxx000001'')]),
                               (''CreatedBy'', PDict [(''Name'', PStr ''John Doe'')])]),
            (''CreatedDate'', PStr ''2025-11-09T15:45:00Z''),
            (''LastModifiedDate'', PStr ''2025-11-09T15:45:00Z''),
            (''PR_MSISDN__c'', PStr ''12218071145''),
            (''vlocity_cmt__BillingAccountId__r'',
               PDict [(''PR_Mobile_Billing_Number__c'', PStr ''23583579-23582472''),
                      (''Segment__c'', PStr ''Postpaid''),
                      (''vlocity_cmt__AccountPaymentType__c'', PStr ''Direct Debit'')])]"

definition mock_line_asset :: pyval where
  "mock_line_asset =
     PDict [(''Id'', PStr ''02ixx0000008XYXAA''),
            (''PR_MSISDN__c'', PStr ''12218071145''),
            (''Product2'', PDict [(''Name'', PStr ''Mobile Line Unlimited''),
                                  (''ProductCode'', PStr ''ML-UNLIM''),
                                  (''vlocity_cmt__ParentClassCode__c'',
                                     PStr ''PR_B2C_Mobile_Line_Class'')]),
            (''vlocity_cmt__ProvisioningStatus__c'', PStr ''Active''),
            (''vlocity_cmt__RootItemId__c'', PStr ''a01234''),
            (''vlocity_cmt__ParentItemId__c'', PNone),
            (''vlocity_cmt__AssetReferenceId__c'', PStr ''line-asset-abc123''),
            (''External_Asset_Reference_Id__c'', PNone),
            (''vlocity_cmt__OneTimeCharge__c'', PNone),
            (''vlocity_cmt__RecurringCharge__c'', PNum 39.99),
            (''Disconnection_Reason__c'', PStr ''N/A''),
            (''vlocity_cmt__DisconnectDate__c'', PNone),
            (''CreatedDate'', PStr ''2025-11-01T10:00:00Z''),
            (''LastModifiedDate'', PStr ''2025-11-09T15:45:00Z''),
            (''CreatedBy'', PDict [(''Name'', PStr ''Admin User'')]),
            (''LastModifiedBy'', PDict [(''Name'', PStr ''Jane Smith'')]),
            (''vlocity_cmt__OrderId__r'', PDict [(''Id'', PStr ''a1Bxxxx000001'')])]"

definition mock_device_asset :: pyval where
  "mock_device_asset =
     PDict [(''Id'', PStr ''02ixx0000008XYXAB''),
            (''PR_MSISDN__c'', PStr ''12218071145''),
            (''Product2'', PDict [(''Name'', PStr ''iPhone 15''),
                                  (''ProductCode'', PStr ''DEV-IP15''),
                                  (''vlocity_cmt__ParentClassCode__c'',
                                     PStr ''PR_B2C_Mobile_Device_Class'')]),
            (''vlocity_cmt__ProvisioningStatus__c'', PStr ''Active''),
            (''vlocity_cmt__RootItemId__c'', PStr ''dev-root-xyz789''),
            (''vlocity_cmt__ParentItemId__c'', PNone),
            (''vlocity_cmt__AssetReferenceId__c'', PStr ''dev-asset-xyz789''),
            (''External_Asset_Reference_Id__c'', PStr ''line-asset-abc123''),
            (''vlocity_cmt__OneTimeCharge__c'', PNum 599.99),
            (''vlocity_cmt__RecurringCharge__c'', PNum 0),
            (''Disconnection_Reason__c'', PStr ''N/A''),
            (''vlocity_cmt__DisconnectDate__c'', PNone),
            (''CreatedDate'', PStr ''2025-11-02T12:00:00Z''),
            (''LastModifiedDate'', PStr ''2025-11-09T15:45:00Z''),
            (''CreatedBy'', PDict [(''Name'', PStr ''Admin User'')]),
            (''LastModifiedBy'', PDict [(''Name'', PStr ''Jane Smith'')]),
            (''vlocity_cmt__OrderId__r'', PDict [(''Id'', PStr ''a1Bxxxx000001'')])]"

definition mock_addon_asset :: pyval where
  "mock_addon_asset =
     PDict [(''Id'', PStr ''02ixx0000008XYXAC''),
            (''PR_MSISDN__c'', PStr ''12218071145''),
            (''Product2'', PDict [(''Name'', PStr ''International Add-On''),
                                  (''ProductCode'', PStr ''ADDON-INTL''),
                                  (''vlocity_cmt__ParentClassCode__c'',
                                     PStr ''PR_B2C_Mobile_Add_On'')]),
            (''vlocity_cmt__ProvisioningStatus__c'', PStr ''Active''),
            (''vlocity_cmt__RootItemId__c'', PStr ''a01234''),
            (''vlocity_cmt__ParentItemId__c'', PStr ''a01234''),
            (''vlocity_cmt__AssetReferenceId__c'', PStr ''addon-asset-123''),
            (''External_Asset_Reference_Id__c'', PNone),
            (''vlocity_cmt__OneTimeCharge__c'', PNum 0),
            (''vlocity_cmt__RecurringCharge__c'', PNum 9.99),
            (''Disconnection_Reason__c'', PStr ''N/A''),
            (''vlocity_cmt__DisconnectDate__c'', PNone),
            (''CreatedDate'', PStr ''2025-11-02T13:00:00Z''),
            (''LastModifiedDate'', PStr ''2025-11-09T15:45:00Z''),
            (''CreatedBy'', PDict [(''Name'', PStr ''Admin User'')]),
            (''LastModifiedBy'', PDict [(''Name'', PStr ''Jane Smith'')]),
            (''vlocity_cmt__OrderId__r'', PDict [(''Id'', PStr ''a1Bxxxx000001'')])]"

definition mock_query_all :: asset_client where
  "mock_query_all soql =
     (if str_contains ''OrderItem'' soql \<and> str_contains ''YESTERDAY'' soql
        then Inr [mock_order_item]
      else if str_contains ''Asset'' soql \<and> str_contains ''12218071145'' soql
        then Inr [mock_line_asset, mock_device_asset, mock_addon_asset]
      else Inr [])"

section \<open>Response Assembler (modules/response\_builder.py)\<close>

text \<open>
  What \<open>_build_msisdn_response\<close> reads of \<open>validation_data\<close>: the raw assets, the order
  history and the warnings are Python values as they come; \<open>validations\<close> is the engine's
  result (a missing \<open>basic\<close> entry is the result set with no key, and every entry of
  \<open>reason_based\<close> is a mapping, so the \<open>isinstance(reason_data, dict)\<close> test of the loop is
  true).  A field is the value \<open>get\<close> returns with the default the code names.
\<close>

record validation_data =
  vd_assets :: pyval
  vd_order_history :: pyval
  vd_validations :: validations
  vd_warnings :: pyval

text \<open>The response.  \<open>resp_summary_success_rate\<close> keeps the two operands of the floating-point
  expression \<open>round(passed_checks / total_checks * 100, 2)\<close>, and is \<open>None\<close> for the integer
  0 of an empty total; \<open>resp_warnings_block\<close> is the \<open>warnings\<close> entry, present only when there
  are warnings, with its \<open>modified_by_users\<close> and \<open>assets_manually_modified\<close>.\<close>

record msisdn_response =
  resp_msisdn :: string
  resp_line_details :: pyval
  validation_status :: string
  resp_order_being_validated :: string
  resp_order_reasons :: "pyval list"
  resp_order_status :: pyval
  resp_order_history :: pyval
  resp_device_asset :: pyval
  resp_line_asset :: pyval
  resp_child_of_line :: pyval
  resp_child_of_device :: pyval
  resp_validations_basic :: result_set
  resp_validations_reason_based :: "(string \<times> result_set) list option"
  resp_summary_status :: string
  resp_summary_success_rate :: "(int \<times> int) option"
  resp_warnings_block :: "(pyval list \<times> pyval) option"
  resp_notes :: string

text \<open>\<open>d.get(key)\<close> on a dict, and \<open>x.get("Name") if isinstance(x, dict) else x\<close>.\<close>

definition dget :: "(string \<times> pyval) list \<Rightarrow> string \<Rightarrow> pyval" where
  "dget d key = (case map_of d key of None \<Rightarrow> PNone | Some v \<Rightarrow> v)"

definition name_or_value :: "pyval \<Rightarrow> pyval" where
  "name_or_value x = (case x of PDict d \<Rightarrow> dget d ''Name'' | _ \<Rightarrow> x)"

text \<open>\<open>len(v)\<close>; of a string, the number of its code units (the code takes the length
  of \<open>warnings\<close> only where a string would be the empty one).\<close>

fun py_len :: "pyval \<Rightarrow> exn + int" where
  "py_len (PList xs) = Inr (int (length xs))"
| "py_len (PStr s) = Inr (int (length s))"
| "py_len (PDict d) = Inr (int (length d))"
| "py_len v = Inl TypeError"

text \<open>\<open>_extract_order_info\<close>: the distinct truthy reasons in order of appearance, cut to
  three, and the status of the first order.\<close>

fun extract_order_info_loop ::
  "pyval list \<Rightarrow> nat \<Rightarrow> pyval list \<Rightarrow> pyval \<Rightarrow> exn + (pyval list \<times> pyval)" where
  "extract_order_info_loop [] i reasons status = Inr (reasons, status)"
| "extract_order_info_loop (order_item # rest) i reasons status =
     bind_exn (py_get_default order_item ''Order'' (PDict [])) (\<lambda>order.
       bind_exn (py_get order ''vlocity_cmt__Reason__c'') (\<lambda>reason.
         let reasons' = (if truthy reason \<and> \<not> list_ex (\<lambda>r. py_eq r reason) reasons
                         then reasons @ [reason] else reasons)
         in if i = 0
            then bind_exn (py_get order ''vlocity_cmt__OrderStatus__c'') (\<lambda>first_status.
                   extract_order_info_loop rest (Suc i) reasons' first_status)
            else extract_order_info_loop rest (Suc i) reasons' status))"

definition extract_order_info :: "pyval \<Rightarrow> exn + (pyval list \<times> pyval)" where
  "extract_order_info history =
     bind_exn (py_iter history) (\<lambda>items.
       bind_exn (extract_order_info_loop items 0 [] PNone) (\<lambda>found.
         Inr (take 3 (fst found), snd found)))"

text \<open>\<open>_extract_line_details\<close>.\<close>

definition extract_line_details :: "pyval \<Rightarrow> exn + pyval" where
  "extract_line_details line =
     (if \<not> truthy line then Inr (PDict [])
      else case line of
        PDict a \<Rightarrow>
          (let billing = dget a ''vlocity_cmt__BillingAccountId__r''
           in Inr (PDict
                [(''msisdn'', dget a ''PR_MSISDN__c''),
                 (''segment'',
                    (case billing of PDict b \<Rightarrow> dget b ''Segment__c'' | _ \<Rightarrow> PNone)),
                 (''cb_subscription_id'', dget a ''CB_Subscription_Id__c''),
                 (''billing_number'',
                    (case billing of
                       PDict b \<Rightarrow> dget b ''PR_Mobile_Billing_Number__c''
                     | _ \<Rightarrow> PNone))]))
      | _ \<Rightarrow> Inl AttributeError)"

text \<open>\<open>_format_order_history\<close>.  An entry needs the order item and its \<open>Order\<close> to be
  mappings, and the \<open>CreatedBy\<close> of an orchestration plan that is a mapping to be one
  too.\<close>

definition format_order :: "pyval \<Rightarrow> exn + pyval" where
  "format_order order_item =
     (case order_item of
        PDict it \<Rightarrow>
          (case (case map_of it ''Order'' of None \<Rightarrow> PDict [] | Some v \<Rightarrow> v) of
             PDict order \<Rightarrow>
               (let billing_account =
                      (case map_of it ''vlocity_cmt__BillingAccountId__r'' of
                         None \<Rightarrow> PDict [] | Some v \<Rightarrow> v);
                    segment =
                      (case billing_account of
                         PDict b \<Rightarrow> dget b ''Segment__c''
                       | _ \<Rightarrow> dget it ''vlocity_cmt__BillingAccountId__r.Segment__c'');
                    payment_type =
                      (case billing_account of
                         PDict b \<Rightarrow> dget b ''vlocity_cmt__AccountPaymentType__c''
                       | _ \<Rightarrow> dget it
                           ''vlocity_cmt__BillingAccountId__r.vlocity_cmt__AccountPaymentType__c'');
                    product = dget it ''vlocity_cmt__Product2Id__r'';
                    plan = dget order ''vlocity_cmt__OrchestrationPlanId__r''
                in bind_exn
                     (case plan of
                        PDict p \<Rightarrow>
                          py_get (case map_of p ''CreatedBy'' of None \<Rightarrow> PDict [] | Some v \<Rightarrow> v)
                            ''Name''
                      | _ \<Rightarrow> Inr PNone)
                     (\<lambda>orchestration_created_by.
                        Inr (PDict
                          [(''order_id'', dget order ''Id''),
                           (''order_item_id'', dget it ''Id''),
                           (''type'', dget order ''Type''),
                           (''reason'', dget order ''vlocity_cmt__Reason__c''),
                           (''status'', dget order ''vlocity_cmt__OrderStatus__c''),
                           (''notes'', dget order ''vlocity_cmt__Notes__c''),
                           (''created_date'', dget it ''CreatedDate''),
                           (''modified_date'', dget it ''LastModifiedDate''),
                           (''submitted_to_om_date'', dget order ''vlocity_cmt__SubmittedToOmDate__c''),
                           (''created_by'', name_or_value (dget order ''CreatedBy'')),
                           (''orchestration_created_by'', orchestration_created_by),
                           (''product_name'',
                              (case product of
                                 PDict p \<Rightarrow> dget p ''Name''
                               | _ \<Rightarrow> dget it ''vlocity_cmt__Product2Id__r.Name'')),
                           (''product_class'',
                              (case product of
                                 PDict p \<Rightarrow> dget p ''vlocity_cmt__ParentClassCode__c''
                               | _ \<Rightarrow> dget it
                                   ''vlocity_cmt__Product2Id__r.vlocity_cmt__ParentClassCode__c'')),
                           (''segment'', segment),
                           (''payment_type'', payment_type)])))
           | _ \<Rightarrow> Inl AttributeError)
      | _ \<Rightarrow> Inl AttributeError)"

fun format_orders :: "pyval list \<Rightarrow> exn + pyval list" where
  "format_orders [] = Inr []"
| "format_orders (order_item # rest) =
     bind_exn (format_order order_item) (\<lambda>entry.
       bind_exn (format_orders rest) (\<lambda>entries. Inr (entry # entries)))"

definition format_order_history :: "pyval \<Rightarrow> exn + pyval" where
  "format_order_history history =
     (if \<not> truthy history then Inr (PDict [(''count'', PNum 0), (''orders'', PNone)])
      else bind_exn (py_iter history) (\<lambda>items.
             bind_exn (format_orders items) (\<lambda>orders.
               Inr (PDict [(''count'', PNum (real (length orders))),
                           (''orders'', PList orders)]))))"

text \<open>\<open>_clean_asset\<close>.\<close>

definition clean_asset :: "pyval \<Rightarrow> exn + pyval" where
  "clean_asset asset =
     (if \<not> truthy asset then Inr PNone
      else case asset of
        PDict a \<Rightarrow>
          (case (case map_of a ''Product2'' of None \<Rightarrow> PDict [] | Some v \<Rightarrow> v) of
             PDict product \<Rightarrow>
               (let modified_by =
                      (case map_of a ''LastModifiedBy'' of None \<Rightarrow> PDict [] | Some v \<Rightarrow> v);
                    created_by =
                      (case map_of a ''CreatedBy'' of None \<Rightarrow> PDict [] | Some v \<Rightarrow> v);
                    product_class = dget product ''vlocity_cmt__ParentClassCode__c'';
                    cleaned =
                      [(''id'', dget a ''Id''),
                       (''product_name'', dget product ''Name''),
                       (''product_code'', dget product ''ProductCode''),
                       (''product_class'', product_class),
                       (''status'', dget a ''vlocity_cmt__ProvisioningStatus__c''),
                       (''asset_reference'', dget a ''vlocity_cmt__AssetReferenceId__c''),
                       (''original_oli_id'', dget a ''PR_Original_OLI_ID__c''),
                       (''charges'',
                          PDict [(''one_time'', dget a ''vlocity_cmt__OneTimeCharge__c''),
                                 (''recurring'', dget a ''vlocity_cmt__RecurringCharge__c'')]),
                       (''disconnect_info'',
                          PDict [(''disconnect_date'', dget a ''vlocity_cmt__DisconnectDate__c''),
                                 (''disconnect_reason'', dget a ''Disconnection_Reason__c'')]),
                       (''audit'',
                          PDict [(''created_date'', dget a ''CreatedDate''),
                                 (''created_by'', name_or_value created_by),
                                 (''modified_date'', dget a ''LastModifiedDate''),
                                 (''modified_by'', name_or_value modified_by)])]
                in Inr (PDict
                     (if product_class = PStr ''PR_B2C_Mobile_Device_Class''
                         \<or> product_class = PStr ''PR_B2C_Mobile_BYOD_Device_Class''
                      then cleaned @
                           [(''reporting_string'', dget a ''PR_Generic_Reporting_String__c''),
                            (''contract_term'', dget a ''Contract_Term__c''),
                            (''installment_id'', dget a ''PRB2C_Installment_ID__c'')]
                      else cleaned)))
           | _ \<Rightarrow> Inl AttributeError)
      | _ \<Rightarrow> Inl AttributeError)"

fun clean_assets :: "pyval list \<Rightarrow> exn + pyval list" where
  "clean_assets [] = Inr []"
| "clean_assets (a # rest) =
     bind_exn (clean_asset a) (\<lambda>c.
       bind_exn (clean_assets rest) (\<lambda>cs. Inr (c # cs)))"

text \<open>\<open>[self._clean_asset(a) for a in children] if children else None\<close>.\<close>

definition clean_children :: "pyval \<Rightarrow> exn + pyval" where
  "clean_children children =
     (if \<not> truthy children then Inr PNone
      else bind_exn (py_iter children) (\<lambda>cs.
             bind_exn (clean_assets cs) (\<lambda>cleaned. Inr (PList cleaned))))"

text \<open>The \<open>for\<close> loop with \<open>break\<close>: the first entry whose \<open>get("status")\<close> is not
  \<open>"SKIPPED"\<close>.\<close>

fun first_reason :: "(string \<times> result_set) list \<Rightarrow> (string \<times> result_set) option" where
  "first_reason [] = None"
| "first_reason ((reason_key, reason_data) # rest) =
     (if rs_status reason_data \<noteq> Some ''SKIPPED'' then Some (reason_key, reason_data)
      else first_reason rest)"

definition status_or_skipped :: "result_set \<Rightarrow> string" where
  "status_or_skipped d = (case rs_status d of None \<Rightarrow> ''SKIPPED'' | Some s \<Rightarrow> s)"

definition count_or_zero :: "int option \<Rightarrow> int" where
  "count_or_zero c = (case c of None \<Rightarrow> 0 | Some n \<Rightarrow> n)"

text \<open>The verdict, as lines 66 to 106 compute it from the two kinds of result set and
  the truth value of \<open>warnings\<close>.\<close>

definition overall_status :: "validations \<Rightarrow> pyval \<Rightarrow> string" where
  "overall_status vals warnings =
     (let basic_status = status_or_skipped (v_basic vals);
          found = first_reason (v_reason_based vals);
          reason_status = (case found of None \<Rightarrow> ''SKIPPED'' | Some (k, d) \<Rightarrow> status_or_skipped d);
          status1 =
            (if basic_status = ''FAILED'' then ''FAILED''
             else if reason_status = ''FAILED'' then ''FAILED''
             else if basic_status = ''PASSED''
                     \<and> (reason_status = ''PASSED'' \<or> reason_status = ''SKIPPED'') then ''PASSED''
             else ''PASSED_WITH_WARNINGS'')
      in if truthy warnings \<and> status1 = ''PASSED'' then ''PASSED_WITH_WARNINGS'' else status1)"

text \<open>The \<open>warnings\<close> entry: \<open>list(set([w.get("modified_by") for w in warnings]))\<close>.  Every
  warning must have a \<open>get\<close>, and a set takes hashable values only; the list keeps one
  of each group of equal values (Python leaves their order open, here it is the order
  of first appearance).\<close>

fun modified_by_of :: "pyval list \<Rightarrow> exn + pyval list" where
  "modified_by_of [] = Inr []"
| "modified_by_of (w # ws) =
     bind_exn (py_get w ''modified_by'') (\<lambda>u.
       bind_exn (modified_by_of ws) (\<lambda>us. Inr (u # us)))"

fun hashable :: "pyval \<Rightarrow> bool" where
  "hashable (PList xs) = False"
| "hashable (PDict d) = False"
| "hashable v = True"

fun py_set_list :: "pyval list \<Rightarrow> pyval list \<Rightarrow> exn + pyval list" where
  "py_set_list [] seen = Inr seen"
| "py_set_list (u # us) seen =
     (if \<not> hashable u then Inl TypeError
      else py_set_list us (if list_ex (\<lambda>s. py_eq s u) seen then seen else seen @ [u]))"

definition build_warnings :: "pyval \<Rightarrow> exn + (pyval list \<times> pyval) option" where
  "build_warnings warnings =
     (if \<not> truthy warnings then Inr None
      else bind_exn (py_iter warnings) (\<lambda>ws.
             bind_exn (modified_by_of ws) (\<lambda>users.
               bind_exn (py_set_list users []) (\<lambda>manually_modified_users.
                 Inr (Some (manually_modified_users, warnings))))))"

text \<open>The note.  The check mark and the warning sign of the source are written as
  their UTF-8 code units.\<close>

definition build_notes :: "string \<Rightarrow> pyval \<Rightarrow> int \<Rightarrow> exn + string" where
  "build_notes status warnings failed_checks =
     (if status = ''PASSED''
        then Inr (''All checks passed! '' @ [CHR 0xE2, CHR 0x9C, CHR 0x93])
      else if status = ''PASSED_WITH_WARNINGS''
        then bind_exn (py_len warnings) (\<lambda>n.
               Inr (''All checks passed but '' @ str_of_int n
                    @ '' asset(s) manually modified. Review warnings. ''
                    @ [CHR 0xE2, CHR 0x9A, CHR 0xA0, CHR 0xEF, CHR 0xB8, CHR 0x8F]))
      else Inr (''Validation failed. '' @ str_of_int failed_checks @ '' check(s) failed.''))"

text \<open>\<open>_build_msisdn_response\<close>, in the order the source evaluates it.\<close>

definition build_msisdn_response :: "string \<Rightarrow> validation_data \<Rightarrow> exn + msisdn_response" where
  "build_msisdn_response msisdn vd =
     bind_exn (py_get (vd_assets vd) ''latest_line'') (\<lambda>latest_line.
     bind_exn (py_get (vd_assets vd) ''device'') (\<lambda>device.
     bind_exn (py_get_default (vd_assets vd) ''line_children'' (PList [])) (\<lambda>line_children.
     bind_exn (py_get_default (vd_assets vd) ''device_children'' (PList [])) (\<lambda>device_children.
     bind_exn (extract_order_info (vd_order_history vd)) (\<lambda>order_info.
       let vals = vd_validations vd;
           warnings = vd_warnings vd;
           basic_checks = v_basic vals;
           reason_checks = v_reason_based vals;
           found = first_reason reason_checks;
           status = overall_status vals warnings;
           total_checks = count_or_zero (rs_total basic_checks)
             + (case found of None \<Rightarrow> 0 | Some (k, d) \<Rightarrow> count_or_zero (rs_total d));
           passed_checks = count_or_zero (rs_passed basic_checks)
             + (case found of None \<Rightarrow> 0 | Some (k, d) \<Rightarrow> count_or_zero (rs_passed d));
           failed_checks = count_or_zero (rs_failed basic_checks)
             + (case found of None \<Rightarrow> 0 | Some (k, d) \<Rightarrow> count_or_zero (rs_failed d))
       in
     bind_exn (if truthy latest_line then extract_line_details latest_line else Inr (PDict []))
       (\<lambda>details.
     bind_exn (format_order_history (vd_order_history vd)) (\<lambda>history.
     bind_exn (if truthy device then clean_asset device else Inr PNone) (\<lambda>cleaned_device.
     bind_exn (if truthy latest_line then clean_asset latest_line else Inr PNone) (\<lambda>cleaned_line.
     bind_exn (clean_children line_children) (\<lambda>cleaned_line_children.
     bind_exn (clean_children device_children) (\<lambda>cleaned_device_children.
     bind_exn (build_warnings warnings) (\<lambda>block.
     bind_exn (build_notes status warnings failed_checks) (\<lambda>note.
       Inr \<lparr> resp_msisdn = msisdn,
             resp_line_details = details,
             validation_status = status,
             resp_order_being_validated = ''Change Plan'',
             resp_order_reasons = fst order_info,
             resp_order_status = snd order_info,
             resp_order_history = history,
             resp_device_asset = cleaned_device,
             resp_line_asset = cleaned_line,
             resp_child_of_line = cleaned_line_children,
             resp_child_of_device = cleaned_device_children,
             resp_validations_basic = basic_checks,
             resp_validations_reason_based = (if reason_checks \<noteq> [] then Some reason_checks else None),
             resp_summary_status = status,
             resp_summary_success_rate =
               (if total_checks > 0 then Some (passed_checks, total_checks) else None),
             resp_warnings_block = block,
             resp_notes = note \<rparr>)))))))))))))"

section \<open>Properties of the Order Classifier\<close>

lemma str_contains_sublist: "str_contains sub s = sublist sub s"
  by (induction s) (auto simp: sublist_Cons_right)

lemma sublist_map_iff:
  "sublist d (map f r) \<longleftrightarrow> (\<exists>ps t ss. r = ps @ t @ ss \<and> map f t = d)"
proof
  assume "sublist d (map f r)"
  then obtain ps' ss' where "map f r = ps' @ d @ ss'"
    by (auto simp: sublist_def)
  then obtain ps rest where r: "r = ps @ rest" and rest: "map f rest = d @ ss'"
    by (metis map_eq_append_conv)
  from rest obtain t ss where "rest = t @ ss" "map f t = d"
    by (metis map_eq_append_conv)
  with r show "\<exists>ps t ss. r = ps @ t @ ss \<and> map f t = d"
    by blast
next
  assume "\<exists>ps t ss. r = ps @ t @ ss \<and> map f t = d"
  then obtain ps t ss where "r = ps @ t @ ss" "map f t = d"
    by blast
  then have "map f r = map f ps @ d @ map f ss"
    by simp
  then show "sublist d (map f r)"
    unfolding sublist_def by blast
qed

lemma not_contains_empty: "\<not> str_contains ''disconnect'' []"
  by simp

lemma normalised_reason_contains:
  "str_contains ''disconnect'' (normalised_reason order) \<longleftrightarrow>
     (\<exists>reason ps t ss. Option.bind (Order order) vlocity_cmt__Reason__c = Some reason
        \<and> reason = ps @ t @ ss \<and> map lower_char t = ''disconnect'')"
proof (cases "Option.bind (Order order) vlocity_cmt__Reason__c")
  case None
  then have "normalised_reason order = []"
    by (auto simp: normalised_reason_def lower_def split: option.splits)
  with None show ?thesis by simp
next
  case (Some reason)
  then have "normalised_reason order = map lower_char reason"
    by (auto simp: normalised_reason_def lower_def split: option.splits)
  with Some show ?thesis
    by (simp add: str_contains_sublist sublist_map_iff)
qed

text \<open>
  Claim C5.  The disconnect exclusion keeps the orders in their order and removes
  exactly those whose reason has a part that reads \<open>disconnect\<close> once its capital
  letters are made small; an order with a null (or missing) reason is never removed.
  The witness runs the orders \<open>Disconnect Request\<close>, \<open>Upgrade\<close> and a null reason of one
  identifier: the last two survive.
\<close>

theorem filter_orders_drops_disconnect:
  "filter_orders orders =
     filter (\<lambda>order. \<not> (\<exists>reason ps t ss.
                Option.bind (Order order) vlocity_cmt__Reason__c = Some reason
                \<and> reason = ps @ t @ ss \<and> map lower_char t = ''disconnect'')) orders
   \<and> (\<forall>order\<in>set orders.
         Option.bind (Order order) vlocity_cmt__Reason__c = None
           \<longrightarrow> order \<in> set (filter_orders orders))"
proof -
  have eq: "filter_orders os =
     filter (\<lambda>order. \<not> (\<exists>reason ps t ss.
                Option.bind (Order order) vlocity_cmt__Reason__c = Some reason
                \<and> reason = ps @ t @ ss \<and> map lower_char t = ''disconnect'')) os" for os
    by (induction os) (simp_all add: normalised_reason_contains)
  show ?thesis
    by (subst (2) eq) (auto simp: eq)
qed

theorem filter_orders_drops_disconnect_witness:
  "filter_orders
     [\<lparr>PR_MSISDN__c = Some ''555'',
        Order = Some \<lparr>vlocity_cmt__Reason__c = Some ''Disconnect Request'', Type = None\<rparr>,
        CreatedDate = Some ''2025-11-09T10:00:00''\<rparr>,
      \<lparr>PR_MSISDN__c = Some ''555'',
        Order = Some \<lparr>vlocity_cmt__Reason__c = Some ''Upgrade'', Type = None\<rparr>,
        CreatedDate = Some ''2025-11-09T11:00:00''\<rparr>,
      \<lparr>PR_MSISDN__c = Some ''555'',
        Order = Some \<lparr>vlocity_cmt__Reason__c = None, Type = None\<rparr>,
        CreatedDate = Some ''2025-11-09T12:00:00''\<rparr>]
   = [\<lparr>PR_MSISDN__c = Some ''555'',
        Order = Some \<lparr>vlocity_cmt__Reason__c = Some ''Upgrade'', Type = None\<rparr>,
        CreatedDate = Some ''2025-11-09T11:00:00''\<rparr>,
      \<lparr>PR_MSISDN__c = Some ''555'',
        Order = Some \<lparr>vlocity_cmt__Reason__c = None, Type = None\<rparr>,
        CreatedDate = Some ''2025-11-09T12:00:00''\<rparr>]
   \<and> \<lparr>PR_MSISDN__c = Some ''555'',
        Order = Some \<lparr>vlocity_cmt__Reason__c = None, Type = None\<rparr>,
        CreatedDate = Some ''2025-11-09T12:00:00''\<rparr>
     \<in> set (filter_orders
         [\<lparr>PR_MSISDN__c = Some ''555'',
        Order = Some \<lparr>vlocity_cmt__Reason__c = Some ''Disconnect Request'', Type = None\<rparr>,
        CreatedDate = Some ''2025-11-09T10:00:00''\<rparr>,
      \<lparr>PR_MSISDN__c = Some ''555'',
        Order = Some \<lparr>vlocity_cmt__Reason__c = Some ''Upgrade'', Type = None\<rparr>,
        CreatedDate = Some ''2025-11-09T11:00:00''\<rparr>,
      \<lparr>PR_MSISDN__c = Some ''555'',
        Order = Some \<lparr>vlocity_cmt__Reason__c = None, Type = None\<rparr>,
        CreatedDate = Some ''2025-11-09T12:00:00''\<rparr>])"
  using filter_orders_drops_disconnect
    [of "[\<lparr>PR_MSISDN__c = Some ''555'',
        Order = Some \<lparr>vlocity_cmt__Reason__c = Some ''Disconnect Request'', Type = None\<rparr>,
        CreatedDate = Some ''2025-11-09T10:00:00''\<rparr>,
      \<lparr>PR_MSISDN__c = Some ''555'',
        Order = Some \<lparr>vlocity_cmt__Reason__c = Some ''Upgrade'', Type = None\<rparr>,
        CreatedDate = Some ''2025-11-09T11:00:00''\<rparr>,
      \<lparr>PR_MSISDN__c = Some ''555'',
        Order = Some \<lparr>vlocity_cmt__Reason__c = None, Type = None\<rparr>,
        CreatedDate = Some ''2025-11-09T12:00:00''\<rparr>]"]
  by (simp add: normalised_reason_def lower_def lower_char_def)

lemma group_None:
  "map_of (foldl group_step [] xs) m = None \<longleftrightarrow> (m = [] \<or> (\<forall>x\<in>set xs. PR_MSISDN__c x \<noteq> Some m))"
proof (induction xs rule: rev_induct)
  case Nil
  then show ?case by simp
next
  case (snoc x xs)
  then show ?case
    by (auto simp: group_step_def update_conv' split: option.splits)
qed

lemma group_Some:
  "map_of (foldl group_step [] xs) m = Some y \<Longrightarrow>
     \<exists>i<length xs. xs ! i = y \<and> PR_MSISDN__c y = Some m
       \<and> (\<forall>j<length xs. PR_MSISDN__c (xs ! j) = Some m \<longrightarrow> created_date (xs ! j) \<le> created_date y)
       \<and> (\<forall>j<i. PR_MSISDN__c (xs ! j) = Some m \<longrightarrow> created_date (xs ! j) < created_date y)"
proof (induction xs arbitrary: y rule: rev_induct)
  case Nil
  then show ?case by simp
next
  case (snoc x xs)
  let ?G = "foldl group_step [] xs"
  have G': "map_of (group_step ?G x) m = Some y" using snoc.prems by simp
  have mne: "m \<noteq> []" using snoc.prems group_None[of "xs @ [x]" m] by auto
  show ?case
  proof (cases "map_of (group_step ?G x) m = map_of ?G m")
    case True
    with G' obtain i where i: "i < length xs" "xs ! i = y" "PR_MSISDN__c y = Some m"
      and le: "\<And>j. j < length xs \<Longrightarrow> PR_MSISDN__c (xs ! j) = Some m
                 \<Longrightarrow> created_date (xs ! j) \<le> created_date y"
      and lt: "\<And>j. j < i \<Longrightarrow> PR_MSISDN__c (xs ! j) = Some m
                 \<Longrightarrow> created_date (xs ! j) < created_date y"
      using snoc.IH[of y] by auto
    have last: "created_date x \<le> created_date y" if "PR_MSISDN__c x = Some m"
      using that True G' mne
      by (auto simp: group_step_def update_conv' split: option.splits if_splits)
    have "\<forall>j<length (xs @ [x]). PR_MSISDN__c ((xs @ [x]) ! j) = Some m
            \<longrightarrow> created_date ((xs @ [x]) ! j) \<le> created_date y"
      using le last by (auto simp: nth_append less_Suc_eq)
    moreover have "\<forall>j<i. PR_MSISDN__c ((xs @ [x]) ! j) = Some m
            \<longrightarrow> created_date ((xs @ [x]) ! j) < created_date y"
      using lt i(1) by (auto simp: nth_append)
    moreover have "i < length (xs @ [x])" "(xs @ [x]) ! i = y"
      using i by (auto simp: nth_append)
    ultimately show ?thesis using i(3) by blast
  next
    case False
    then have upd: "PR_MSISDN__c x = Some m" "y = x"
      and gt: "\<And>e. map_of ?G m = Some e \<Longrightarrow> created_date e < created_date x"
      using G' by (auto simp: group_step_def update_conv' split: option.splits if_splits)
    have before: "created_date (xs ! j) < created_date x"
      if "j < length xs" "PR_MSISDN__c (xs ! j) = Some m" for j
    proof (cases "map_of ?G m")
      case None
      then show ?thesis using that mne group_None[of xs m] by auto
    next
      case (Some e)
      then have "created_date (xs ! j) \<le> created_date e"
        using snoc.IH[of e] that by auto
      then show ?thesis using gt[OF Some] by simp
    qed
    have "\<forall>j<length (xs @ [x]). PR_MSISDN__c ((xs @ [x]) ! j) = Some m
            \<longrightarrow> created_date ((xs @ [x]) ! j) \<le> created_date x"
      using before by (auto simp: nth_append less_Suc_eq intro: less_imp_le)
    moreover have "\<forall>j<length xs. PR_MSISDN__c ((xs @ [x]) ! j) = Some m
            \<longrightarrow> created_date ((xs @ [x]) ! j) < created_date x"
      using before by (auto simp: nth_append)
    moreover have "length xs < length (xs @ [x])" "(xs @ [x]) ! length xs = x"
      by simp_all
    ultimately show ?thesis using upd by blast
  qed
qed

text \<open>
  Claim C6.  The grouping maps an identifier to an order exactly when the identifier is
  not empty and some order carries it; the order it maps to is one of that identifier's
  orders whose \<open>CreatedDate\<close> (a missing one reads as the empty string) no order of the
  identifier exceeds under string comparison, and every earlier order of the identifier
  has a strictly smaller \<open>CreatedDate\<close>: of equal dates the one met first is kept.
\<close>

theorem group_by_msisdn_keeps_latest_first:
  "(map_of (group_by_msisdn orders) m = None
      \<longleftrightarrow> (m = [] \<or> (\<forall>x\<in>set orders. PR_MSISDN__c x \<noteq> Some m)))
   \<and> (\<forall>y. map_of (group_by_msisdn orders) m = Some y \<longrightarrow>
         (\<exists>i<length orders. orders ! i = y \<and> PR_MSISDN__c y = Some m
            \<and> (\<forall>j<length orders. PR_MSISDN__c (orders ! j) = Some m
                   \<longrightarrow> created_date (orders ! j) \<le> created_date y)
            \<and> (\<forall>j<i. PR_MSISDN__c (orders ! j) = Some m
                   \<longrightarrow> created_date (orders ! j) < created_date y)))"
  unfolding group_by_msisdn_def using group_None[of orders m] group_Some[of orders m]
  by blast

theorem group_by_msisdn_keeps_latest_first_witness:
  "map_of (group_by_msisdn
     [\<lparr>PR_MSISDN__c = Some ''555'', Order = None, CreatedDate = Some ''2025-11-09T10:00:00''\<rparr>,
      \<lparr>PR_MSISDN__c = Some ''555'', Order = None, CreatedDate = Some ''2025-11-09T12:00:00''\<rparr>,
      \<lparr>PR_MSISDN__c = Some ''777'', Order = None, CreatedDate = None\<rparr>,
      \<lparr>PR_MSISDN__c = Some ''555'', Order = Some \<lparr>vlocity_cmt__Reason__c = None, Type = None\<rparr>,
        CreatedDate = Some ''2025-11-09T12:00:00''\<rparr>]) ''555''
   = Some \<lparr>PR_MSISDN__c = Some ''555'', Order = None, CreatedDate = Some ''2025-11-09T12:00:00''\<rparr>
   \<and> (\<exists>i<length
     [\<lparr>PR_MSISDN__c = Some ''555'', Order = None, CreatedDate = Some ''2025-11-09T10:00:00''\<rparr>,
      \<lparr>PR_MSISDN__c = Some ''555'', Order = None, CreatedDate = Some ''2025-11-09T12:00:00''\<rparr>,
      \<lparr>PR_MSISDN__c = Some ''777'', Order = None, CreatedDate = None\<rparr>,
      \<lparr>PR_MSISDN__c = Some ''555'', Order = Some \<lparr>vlocity_cmt__Reason__c = None, Type = None\<rparr>,
        CreatedDate = Some ''2025-11-09T12:00:00''\<rparr>].
     [\<lparr>PR_MSISDN__c = Some ''555'', Order = None, CreatedDate = Some ''2025-11-09T10:00:00''\<rparr>,
      \<lparr>PR_MSISDN__c = Some ''555'', Order = None, CreatedDate = Some ''2025-11-09T12:00:00''\<rparr>,
      \<lparr>PR_MSISDN__c = Some ''777'', Order = None, CreatedDate = None\<rparr>,
      \<lparr>PR_MSISDN__c = Some ''555'', Order = Some \<lparr>vlocity_cmt__Reason__c = None, Type = None\<rparr>,
        CreatedDate = Some ''2025-11-09T12:00:00''\<rparr>] ! i
      = \<lparr>PR_MSISDN__c = Some ''555'', Order = None, CreatedDate = Some ''2025-11-09T12:00:00''\<rparr>)"
proof -
  let ?os = "[\<lparr>PR_MSISDN__c = Some ''555'', Order = None, CreatedDate = Some ''2025-11-09T10:00:00''\<rparr>,
      \<lparr>PR_MSISDN__c = Some ''555'', Order = None, CreatedDate = Some ''2025-11-09T12:00:00''\<rparr>,
      \<lparr>PR_MSISDN__c = Some ''777'', Order = None, CreatedDate = None\<rparr>,
      \<lparr>PR_MSISDN__c = Some ''555'', Order = Some \<lparr>vlocity_cmt__Reason__c = None, Type = None\<rparr>,
        CreatedDate = Some ''2025-11-09T12:00:00''\<rparr>]"
  let ?y = "\<lparr>PR_MSISDN__c = Some ''555'', Order = None, CreatedDate = Some ''2025-11-09T12:00:00''\<rparr>"
  have run: "map_of (group_by_msisdn ?os) ''555'' = Some ?y"
    by (simp add: group_by_msisdn_def group_step_def created_date_def)
  show ?thesis
    using group_by_msisdn_keeps_latest_first[of ?os "''555''"] run
    by blast
qed

section \<open>Properties of the Response Assembler\<close>

lemma first_reason_find:
  "first_reason rs = find (\<lambda>(k, d). rs_status d \<noteq> Some ''SKIPPED'') rs"
  by (induction rs) auto

lemma first_reason_Some:
  "first_reason rs = Some (k, d) \<Longrightarrow> (k, d) \<in> set rs \<and> rs_status d \<noteq> Some ''SKIPPED''"
  by (induction rs) (auto split: if_splits)

text \<open>The verdict computed from result sets that carry a status (as every set the
  engine writes does): \<open>FAILED\<close> when the basic set failed; otherwise \<open>FAILED\<close> when the
  first reason set whose status is not \<open>SKIPPED\<close> failed; otherwise \<open>PASSED\<close> when the basic
  set passed, that first reason set (if there is one) passed too and \<open>warnings\<close> is falsy;
  and \<open>PASSED_WITH_WARNINGS\<close> in every other case.\<close>

lemma overall_status_reduction:
  assumes "\<forall>(k, d)\<in>set (v_reason_based vals). rs_status d \<noteq> None"
  shows "overall_status vals warnings =
    (if rs_status (v_basic vals) = Some ''FAILED'' then ''FAILED''
     else case find (\<lambda>(k, d). rs_status d \<noteq> Some ''SKIPPED'') (v_reason_based vals) of
        Some (k, d) \<Rightarrow>
          if rs_status d = Some ''FAILED'' then ''FAILED''
          else if rs_status (v_basic vals) = Some ''PASSED'' \<and> rs_status d = Some ''PASSED''
                  \<and> \<not> truthy warnings then ''PASSED''
          else ''PASSED_WITH_WARNINGS''
      | None \<Rightarrow>
          if rs_status (v_basic vals) = Some ''PASSED'' \<and> \<not> truthy warnings then ''PASSED''
          else ''PASSED_WITH_WARNINGS'')"
proof (cases "first_reason (v_reason_based vals)")
  case None
  then show ?thesis
    by (cases "rs_status (v_basic vals)")
       (simp_all add: overall_status_def status_or_skipped_def Let_def
          first_reason_find [symmetric])
next
  case (Some kd)
  obtain k d where kd: "kd = (k, d)" by (cases kd)
  from Some kd have "(k, d) \<in> set (v_reason_based vals)" "rs_status d \<noteq> Some ''SKIPPED''"
    using first_reason_Some by blast+
  with assms obtain s where s: "rs_status d = Some s" "s \<noteq> ''SKIPPED''"
    by fastforce
  show ?thesis
    using Some kd s
    by (cases "rs_status (v_basic vals)")
       (simp_all add: overall_status_def status_or_skipped_def Let_def
          first_reason_find [symmetric])
qed

text \<open>When \<open>_build_msisdn_response\<close> returns, the verdict of the response is the one
  computed above.\<close>

lemma build_msisdn_response_status:
  assumes "build_msisdn_response msisdn vd = Inr response"
  shows "validation_status response = overall_status (vd_validations vd) (vd_warnings vd)"
  using assms
  by (auto simp: build_msisdn_response_def bind_exn_def Let_def split: sum.splits)


section \<open>Properties of the Rule Evaluation Engine\<close>

lemma execute_check_eq:
  "execute_check chk assets = Inr (dispatch_check chk assets = Inr True)"
  by (cases "dispatch_check chk assets") (auto simp: execute_check_def)

lemma run_checks_loop_eq:
  "run_checks_loop chks assets results =
     Inr (foldl (\<lambda>res c. AList.update (check_id c) (dispatch_check c assets = Inr True) res)
            results chks)"
  by (induction chks arbitrary: results) (simp_all add: execute_check_eq bind_exn_def)

lemma dom_checks_fold:
  "dom (map_of (foldl (\<lambda>res c. AList.update (check_id c) (f c) res) results chks))
     = dom (map_of results) \<union> check_id ` set chks"
  by (induction chks arbitrary: results) (auto simp: update_conv')

lemma map_of_checks_fold:
  "map_of (foldl (\<lambda>res c. AList.update (check_id c) (f c) res) results chks) k =
     (case find (\<lambda>c. check_id c = k) (rev chks) of
        Some c \<Rightarrow> Some (f c)
      | None \<Rightarrow> map_of results k)"
proof (induction chks arbitrary: results rule: rev_induct)
  case Nil
  then show ?case by simp
next
  case (snoc c chks)
  then show ?case by (simp add: update_conv')
qed

lemma run_reason_checks_total:
  "\<exists>res. run_reason_checks cfg reason assets = Inr res
      \<and> rs_status res \<in> {Some ''PASSED'', Some ''FAILED'', Some ''SKIPPED''}"
  by (auto simp: run_reason_checks_def run_checks_loop_eq bind_exn_def skipped_result_def
        calculate_stats_def Let_def split: option.splits)

lemma run_basic_checks_total:
  "\<exists>res. run_basic_checks cfg assets = Inr res
      \<and> rs_status res \<in> {Some ''PASSED'', Some ''FAILED''}"
  by (auto simp: run_basic_checks_def run_checks_loop_eq bind_exn_def
        calculate_stats_def Let_def split: option.splits)

lemma reason_loop_total:
  "\<exists>out. reason_loop cfg assets reasons acc = Inr out
     \<and> dom (map_of out) = dom (map_of acc) \<union> {r. Some r \<in> set reasons \<and> r \<noteq> []}
     \<and> (\<forall>r res. map_of out r = Some res \<longrightarrow>
            map_of acc r = Some res \<or> run_reason_checks cfg r assets = Inr res)"
proof (induction reasons arbitrary: acc)
  case Nil
  then show ?case by simp
next
  case (Cons r reasons)
  show ?case
  proof (cases "r = None \<or> r = Some []")
    case True
    then show ?thesis using Cons.IH[of acc] by auto
  next
    case False
    then obtain reason where r: "r = Some reason" "reason \<noteq> []" by auto
    obtain res where res: "run_reason_checks cfg reason assets = Inr res"
      using run_reason_checks_total by blast
    obtain out where out: "reason_loop cfg assets reasons (AList.update reason res acc) = Inr out"
      "dom (map_of out) = dom (map_of (AList.update reason res acc)) \<union> {r. Some r \<in> set reasons \<and> r \<noteq> []}"
      "\<forall>r' res'. map_of out r' = Some res' \<longrightarrow>
            map_of (AList.update reason res acc) r' = Some res' \<or> run_reason_checks cfg r' assets = Inr res'"
      using Cons.IH[of "AList.update reason res acc"] by blast
    have "reason_loop cfg assets (r # reasons) acc = Inr out"
      using r res out(1) by (simp add: bind_exn_def)
    moreover have "dom (map_of out) = dom (map_of acc) \<union> {r'. Some r' \<in> set (r # reasons) \<and> r' \<noteq> []}"
      using out(2) r by (auto simp: update_conv')
    moreover have "\<forall>r' res'. map_of out r' = Some res' \<longrightarrow>
            map_of acc r' = Some res' \<or> run_reason_checks cfg r' assets = Inr res'"
      using out(3) res by (auto simp: update_conv' split: if_splits)
    ultimately show ?thesis by blast
  qed
qed


text \<open>
  Claim C4.  \<open>_execute_check\<close> always returns a boolean: an exception raised inside the
  dispatched check, an unknown \<open>validation_type\<close> and an unknown presence or charges
  strategy each give \<open>False\<close>.  The loop over a check set therefore reaches every
  check: it ends with a result under every check id, the one \<open>_execute_check\<close> returned
  for the last check carrying that id; and \<open>validate_for_msisdn\<close> returns the basic set
  together with one result set per non-empty reason.
\<close>

theorem execute_check_never_raises:
  "(\<exists>b. execute_check chk assets = Inr b)
   \<and> (\<forall>e. dispatch_check chk assets = Inl e \<longrightarrow> execute_check chk assets = Inr False)
   \<and> (validation_type chk \<notin> {Some ''presence'', Some ''charges'', Some ''status'', Some ''custom''}
         \<longrightarrow> execute_check chk assets = Inr False)
   \<and> (validation_type chk = Some ''presence''
         \<and> logic chk \<notin> {Some ''search_line_children_for_sim_card'', Some ''validate_device_exists''}
         \<longrightarrow> execute_check chk assets = Inr False)
   \<and> (validation_type chk = Some ''charges''
         \<and> logic chk \<notin> {Some ''validate_all_line_children_charges'', Some ''validate_device_charges'',
                          Some ''validate_all_device_children_charges'', Some ''validate_sim_card_charges''}
         \<longrightarrow> execute_check chk assets = Inr False)
   \<and> (\<exists>results. run_checks_loop chks assets [] = Inr results
         \<and> dom (map_of results) = check_id ` set chks
         \<and> (\<forall>k. map_of results k =
                map_option (\<lambda>c. execute_check c assets = Inr True)
                  (find (\<lambda>c. check_id c = k) (rev chks))))
   \<and> (\<exists>v. validate_for_msisdn cfg assets order_reasons = Inr v
         \<and> run_basic_checks cfg assets = Inr (v_basic v)
         \<and> dom (map_of (v_reason_based v)) = {r. Some r \<in> set order_reasons \<and> r \<noteq> []}
         \<and> (\<forall>r res. map_of (v_reason_based v) r = Some res
                \<longrightarrow> run_reason_checks cfg r assets = Inr res))"
proof -
  have total: "\<exists>b. execute_check chk assets = Inr b"
    by (simp add: execute_check_eq)
  have caught: "\<forall>e. dispatch_check chk assets = Inl e \<longrightarrow> execute_check chk assets = Inr False"
    by (simp add: execute_check_def)
  have unknown_type:
    "validation_type chk \<notin> {Some ''presence'', Some ''charges'', Some ''status'', Some ''custom''}
       \<longrightarrow> execute_check chk assets = Inr False"
    by (simp add: execute_check_def dispatch_check_def)
  have unknown_presence:
    "validation_type chk = Some ''presence''
       \<and> logic chk \<notin> {Some ''search_line_children_for_sim_card'', Some ''validate_device_exists''}
       \<longrightarrow> execute_check chk assets = Inr False"
    by (simp add: execute_check_def dispatch_check_def check_presence_def)
  have unknown_charges:
    "validation_type chk = Some ''charges''
       \<and> logic chk \<notin> {Some ''validate_all_line_children_charges'', Some ''validate_device_charges'',
                        Some ''validate_all_device_children_charges'', Some ''validate_sim_card_charges''}
       \<longrightarrow> execute_check chk assets = Inr False"
    by (simp add: execute_check_def dispatch_check_def check_charges_def)
  have loop: "\<exists>results. run_checks_loop chks assets [] = Inr results
         \<and> dom (map_of results) = check_id ` set chks
         \<and> (\<forall>k. map_of results k =
                map_option (\<lambda>c. execute_check c assets = Inr True)
                  (find (\<lambda>c. check_id c = k) (rev chks)))"
    by (simp add: run_checks_loop_eq dom_checks_fold map_of_checks_fold execute_check_eq
          split: option.splits)
  obtain basic where basic: "run_basic_checks cfg assets = Inr basic"
    using run_basic_checks_total by blast
  have "\<exists>out. reason_loop cfg assets order_reasons [] = Inr out
    \<and> dom (map_of out) = {r. Some r \<in> set order_reasons \<and> r \<noteq> []}
    \<and> (\<forall>r res. map_of out r = Some res \<longrightarrow> run_reason_checks cfg r assets = Inr res)"
    using reason_loop_total[of cfg assets order_reasons "[]"] by simp
  then obtain out where out: "reason_loop cfg assets order_reasons [] = Inr out
    \<and> dom (map_of out) = {r. Some r \<in> set order_reasons \<and> r \<noteq> []}
    \<and> (\<forall>r res. map_of out r = Some res \<longrightarrow> run_reason_checks cfg r assets = Inr res)"
    ..
  have whole: "\<exists>v. validate_for_msisdn cfg assets order_reasons = Inr v
         \<and> run_basic_checks cfg assets = Inr (v_basic v)
         \<and> dom (map_of (v_reason_based v)) = {r. Some r \<in> set order_reasons \<and> r \<noteq> []}
         \<and> (\<forall>r res. map_of (v_reason_based v) r = Some res
                \<longrightarrow> run_reason_checks cfg r assets = Inr res)"
    using basic out by (simp add: validate_for_msisdn_def bind_exn_def)
  from total caught unknown_type unknown_presence unknown_charges loop whole
  show ?thesis by blast
qed

theorem execute_check_never_raises_witness:
  "dispatch_check \<lparr>check_id = Some ''device_has_charges'', validation_type = Some ''charges'', logic = Some ''validate_device_charges'', allow_zero = Some True, field_path = None, expected_value = PNone\<rparr>
     (PDict [(''device'', PStr ''A-100''), (''line_children'', PList [])]) = Inl AttributeError
   \<and> execute_check \<lparr>check_id = Some ''device_has_charges'', validation_type = Some ''charges'', logic = Some ''validate_device_charges'', allow_zero = Some True, field_path = None, expected_value = PNone\<rparr>
     (PDict [(''device'', PStr ''A-100''), (''line_children'', PList [])]) = Inr False
   \<and> run_checks_loop
       [\<lparr>check_id = Some ''device_has_charges'', validation_type = Some ''charges'', logic = Some ''validate_device_charges'', allow_zero = Some True, field_path = None, expected_value = PNone\<rparr>,
        \<lparr>check_id = Some ''mystery'', validation_type = Some ''checksum'', logic = None, allow_zero = None, field_path = None, expected_value = PNone\<rparr>,
        \<lparr>check_id = Some ''sim_present'', validation_type = Some ''presence'', logic = Some ''find_sim'', allow_zero = None, field_path = None, expected_value = PNone\<rparr>,
        \<lparr>check_id = Some ''placeholder'', validation_type = Some ''custom'', logic = None, allow_zero = None, field_path = None, expected_value = PNone\<rparr>]
       (PDict [(''device'', PStr ''A-100''), (''line_children'', PList [])]) []
     = Inr [(Some ''device_has_charges'', False), (Some ''mystery'', False),
            (Some ''sim_present'', False), (Some ''placeholder'', True)]"
proof -
  let ?c = "\<lparr>check_id = Some ''device_has_charges'', validation_type = Some ''charges'', logic = Some ''validate_device_charges'', allow_zero = Some True, field_path = None, expected_value = PNone\<rparr>"
  let ?a = "PDict [(''device'', PStr ''A-100''), (''line_children'', PList [])]"
  have raised: "dispatch_check ?c ?a = Inl AttributeError"
    by (simp add: dispatch_check_def check_charges_def validate_device_charges_def
          bind_exn_def py_get_def)
  have run: "run_checks_loop [?c, \<lparr>check_id = Some ''mystery'', validation_type = Some ''checksum'', logic = None, allow_zero = None, field_path = None, expected_value = PNone\<rparr>,
        \<lparr>check_id = Some ''sim_present'', validation_type = Some ''presence'', logic = Some ''find_sim'', allow_zero = None, field_path = None, expected_value = PNone\<rparr>,
        \<lparr>check_id = Some ''placeholder'', validation_type = Some ''custom'', logic = None, allow_zero = None, field_path = None, expected_value = PNone\<rparr>] ?a []
     = Inr [(Some ''device_has_charges'', False), (Some ''mystery'', False),
            (Some ''sim_present'', False), (Some ''placeholder'', True)]"
    by (simp add: execute_check_def dispatch_check_def check_charges_def check_presence_def
          check_custom_def validate_device_charges_def bind_exn_def py_get_def)
  have caught: "execute_check ?c ?a = Inr False"
    using execute_check_never_raises[THEN conjunct2, THEN conjunct1, rule_format, OF raised] .
  show ?thesis
    using raised caught run by (intro conjI)
qed

text \<open>
  Claim C2.  The device-charges strategy does not ask for a value strictly greater than
  zero when \<open>allow_zero\<close> is false: it only rejects a pair whose values are each null or
  equal to zero.  A device whose only charge is the negative amount \<open>-5\<close> passes with
  \<open>allow_zero = False\<close>, directly and through \<open>_execute_check\<close>.
\<close>

theorem validate_device_charges_negative_passes:
  "validate_device_charges
     (PDict [(''device'', PDict [(''id'', PStr ''02i000000000001''),
                (''charges'', PDict [(''one_time'', PNum (- 5)), (''recurring'', PNone)])])])
     False = Inr True
   \<and> execute_check
     \<lparr>check_id = Some ''device_has_charges'', validation_type = Some ''charges'',
      logic = Some ''validate_device_charges'', allow_zero = Some False,
      field_path = None, expected_value = PNone\<rparr>
     (PDict [(''device'', PDict [(''id'', PStr ''02i000000000001''),
                (''charges'', PDict [(''one_time'', PNum (- 5)), (''recurring'', PNone)])])])
     = Inr True"
  by (simp add: execute_check_def dispatch_check_def check_charges_def
        validate_device_charges_def charges_valid_def bind_exn_def py_get_def)

lemma validate_device_charges_examples:
  "validate_device_charges
     (PDict [(''device'', PDict [(''charges'', PDict [(''one_time'', PNum 0), (''recurring'', PNum 0)])])])
     True = Inr True"
  "validate_device_charges
     (PDict [(''device'', PDict [(''charges'', PDict [(''one_time'', PNum 0), (''recurring'', PNum 0)])])])
     False = Inr False"
  "validate_device_charges
     (PDict [(''device'', PDict [(''charges'', PDict [(''one_time'', PNum 0), (''recurring'', PNum 5)])])])
     False = Inr True"
  "validate_device_charges
     (PDict [(''device'', PDict [(''charges'', PDict [(''one_time'', PNone), (''recurring'', PNone)])])])
     az = Inr False"
  by (simp_all add: validate_device_charges_def charges_valid_def bind_exn_def py_get_def)

text \<open>
  Claim C3.  A bundle whose \<open>device_children\<close> list is empty passes the device-children
  charges check, and one whose \<open>line_children\<close> list is empty passes the line-children
  charges check, whatever \<open>allow_zero\<close> is.
\<close>

theorem empty_children_pass:
  "(map_of bundle ''device_children'' = Some (PList [])
      \<longrightarrow> validate_device_children_charges (PDict bundle) allow_zero_flag = Inr True)
   \<and> (map_of bundle ''line_children'' = Some (PList [])
      \<longrightarrow> validate_line_children_charges (PDict bundle) allow_zero_flag = Inr True)"
  by (simp add: validate_device_children_charges_def validate_line_children_charges_def
        bind_exn_def)

theorem empty_children_pass_witness:
  "map_of [(''device'', PNone), (''line_children'', PList []), (''device_children'', PList [])]
      ''device_children'' = Some (PList [])
   \<and> validate_device_children_charges
       (PDict [(''device'', PNone), (''line_children'', PList []), (''device_children'', PList [])])
       False = Inr True
   \<and> validate_line_children_charges
       (PDict [(''device'', PNone), (''line_children'', PList []), (''device_children'', PList [])])
       False = Inr True"
  using empty_children_pass
    [of "[(''device'', PNone), (''line_children'', PList []), (''device_children'', PList [])]" False]
  by simp

section \<open>Properties of the Order Retriever\<close>

lemma run_query_no_config_error:
  "fst (run_query sf soql) \<noteq> Inl (Config_error ce) \<and> snd (run_query sf soql) = [soql]"
  by (auto simp: run_query_def Let_def split: sum.splits)

text \<open>
  Claim C7.  With the strategy read as \<open>latest\<close> when none is configured, \<open>get_orders\<close>
  raises a configuration error, having sent no query, exactly when the strategy is
  \<open>filtered\<close> and either no (or an empty) reason filter is configured or a non-empty list
  of valid reasons does not contain the configured reason, or when the strategy is
  neither \<open>latest\<close> nor \<open>filtered\<close>.  In every other case no configuration error is raised
  and exactly one query is sent.
\<close>

theorem get_orders_configuration_errors:
  "(let strategy = (case fetch_strategy order_config of None \<Rightarrow> ''latest'' | Some s \<Rightarrow> s);
        no_filter = (order_reason_filter order_config = None
                       \<or> order_reason_filter order_config = Some []);
        valid = (case valid_order_reasons order_config of None \<Rightarrow> [] | Some vs \<Rightarrow> vs);
        not_allowed = (\<exists>r. order_reason_filter order_config = Some r
                          \<and> valid \<noteq> [] \<and> r \<notin> set valid);
        misconfigured = ((strategy = ''filtered'' \<and> (no_filter \<or> not_allowed))
                           \<or> (strategy \<noteq> ''latest'' \<and> strategy \<noteq> ''filtered''))
    in (misconfigured \<longrightarrow>
          (\<exists>ce. get_orders sf order_config = (Inl (Config_error ce), [])))
       \<and> (\<not> misconfigured \<longrightarrow>
          (\<forall>ce. fst (get_orders sf order_config) \<noteq> Inl (Config_error ce))
          \<and> length (snd (get_orders sf order_config)) = 1))"
proof (cases "order_reason_filter order_config")
  case None
  then show ?thesis
    using run_query_no_config_error[of sf latest_soql]
    by (auto simp: get_orders_def get_latest_orders_def get_filtered_orders_def Let_def
          split: option.splits)
next
  case (Some r)
  then show ?thesis
    using run_query_no_config_error[of sf latest_soql]
      run_query_no_config_error[of sf "filtered_soql r"]
    by (auto simp: get_orders_def get_latest_orders_def get_filtered_orders_def Let_def
          split: option.splits)
qed


theorem get_orders_configuration_errors_witness:
  "(\<exists>ce. get_orders (\<lambda>soql. Inr (Result_dict (Some [])))
       \<lparr>fetch_strategy = Some ''filtered'', order_reason_filter = Some ''Upgrade'', valid_order_reasons = Some [''Change Plan'', ''SIM Replacement'']\<rparr>
     = (Inl (Config_error ce), []))
   \<and> (\<forall>ce. fst (get_orders (\<lambda>soql. Inr (Result_dict (Some [])))
       \<lparr>fetch_strategy = None, order_reason_filter = Some ''Upgrade'', valid_order_reasons = Some [''Change Plan'', ''SIM Replacement'']\<rparr>)
     \<noteq> Inl (Config_error ce))
   \<and> length (snd (get_orders (\<lambda>soql. Inr (Result_dict (Some [])))
       \<lparr>fetch_strategy = None, order_reason_filter = Some ''Upgrade'', valid_order_reasons = Some [''Change Plan'', ''SIM Replacement'']\<rparr>)) = 1"
  using get_orders_configuration_errors
      [of "\<lparr>fetch_strategy = Some ''filtered'', order_reason_filter = Some ''Upgrade'', valid_order_reasons = Some [''Change Plan'', ''SIM Replacement'']\<rparr>"
          "(\<lambda>soql. Inr (Result_dict (Some [])))"]
    get_orders_configuration_errors
      [of "\<lparr>fetch_strategy = None, order_reason_filter = Some ''Upgrade'', valid_order_reasons = Some [''Change Plan'', ''SIM Replacement'']\<rparr>"
          "(\<lambda>soql. Inr (Result_dict (Some [])))"]
  by (simp add: Let_def)

section \<open>Properties of the Asset Assembler\<close>

text \<open>The two structured results.  When the line lookup returns no line, the assembler
  returns no line, no device, empty children lists and the error state
  \<open>No active line found\<close>.  When the line lookup returns a line, the two reads for the
  log and the asset reference succeed and the device lookup returns no device, it
  returns the line, no device, empty children lists and the error state
  \<open>No device found (mandatory)\<close>.\<close>

lemma get_assets_structured_results:
  "(get_latest_line sf queries msisdn = Inr line \<and> \<not> truthy line
      \<longrightarrow> get_assets_for_msisdn_v2 sf queries msisdn =
            Inr \<lparr>ar_latest_line = PNone, ar_device = PNone, ar_line_children = [],
                 ar_device_children = [], ar_error = Some ''No active line found''\<rparr>)
   \<and> (get_latest_line sf queries msisdn = Inr line \<and> truthy line
       \<and> log_product_name line = Inr name
       \<and> py_get line ''vlocity_cmt__AssetReferenceId__c'' = Inr line_asset_ref
       \<and> get_device_for_line sf queries msisdn line_asset_ref = Inr device
       \<and> \<not> truthy device
      \<longrightarrow> get_assets_for_msisdn_v2 sf queries msisdn =
            Inr \<lparr>ar_latest_line = line, ar_device = PNone, ar_line_children = [],
                 ar_device_children = [], ar_error = Some ''No device found (mandatory)''\<rparr>)"
  by (simp add: get_assets_for_msisdn_v2_def bind_exn_def)

text \<open>With the mock record source the line of \<open>12218071145\<close> is found and the device
  lookup by its asset reference finds nothing: the error state returned begins with a
  capital letter.\<close>

lemma get_assets_mock_no_device:
  "get_assets_for_msisdn_v2 mock_query_all
     [(''latest_line_for_msisdn'',
        \<lparr>qc_fields = Some [''Id'', ''Product2.Name'', ''vlocity_cmt__AssetReferenceId__c''],
         qc_from_table = None,
         qc_where_conditions = Some [''PR_MSISDN__c IN ('{msisdn}')'']\<rparr>),
      (''device_for_line'',
        \<lparr>qc_fields = Some [''Id'', ''Product2.Name''], qc_from_table = Some ''Asset'',
         qc_where_conditions =
           Some [''External_Asset_Reference_Id__c IN ('{asset_reference_id}')'']\<rparr>)]
     ''12218071145''
   = Inr \<lparr>ar_latest_line = mock_line_asset, ar_device = PNone, ar_line_children = [],
          ar_device_children = [], ar_error = Some ''No device found (mandatory)''\<rparr>"
  by code_simp

text \<open>
  Claim C8.  A line that is found but has no linked device does not always give the
  structured result.  When the record source answers the line lookup with a line whose
  asset reference is null, replacing the placeholder of the device query raises
  \<open>TypeError\<close>; when it answers with a line whose \<open>Product2\<close> is null, the log line that
  reads the product name raises \<open>AttributeError\<close>.  Both leave
  \<open>get_assets_for_msisdn_v2\<close>, which re-raises them.
\<close>

theorem get_assets_raises_for_line_without_reference:
  "get_assets_for_msisdn_v2
     (mock_query_all
        (''SELECT Id, Product2.Name, vlocity_cmt__AssetReferenceId__c FROM Asset WHERE PR_MSISDN__c IN ('12218071145') ORDER BY CreatedDate DESC LIMIT 1''
         := Inr [PDict [(''Id'', PStr ''02ixx0000008XYXAA''),
                 (''Product2'', PDict [(''Name'', PStr ''Mobile Line Unlimited'')]),
                 (''vlocity_cmt__AssetReferenceId__c'', PNone)]]))
     [(''latest_line_for_msisdn'',
        \<lparr>qc_fields = Some [''Id'', ''Product2.Name'', ''vlocity_cmt__AssetReferenceId__c''],
         qc_from_table = None,
         qc_where_conditions = Some [''PR_MSISDN__c IN ('{msisdn}')'']\<rparr>),
      (''device_for_line'',
        \<lparr>qc_fields = Some [''Id'', ''Product2.Name''], qc_from_table = Some ''Asset'',
         qc_where_conditions =
           Some [''External_Asset_Reference_Id__c IN ('{asset_reference_id}')'']\<rparr>)]
     ''12218071145''
   = Inl TypeError
   \<and> get_assets_for_msisdn_v2
     (mock_query_all
        (''SELECT Id, Product2.Name, vlocity_cmt__AssetReferenceId__c FROM Asset WHERE PR_MSISDN__c IN ('12218071145') ORDER BY CreatedDate DESC LIMIT 1''
         := Inr [PDict [(''Id'', PStr ''02ixx0000008XYXAA''),
                 (''Product2'', PNone),
                 (''vlocity_cmt__AssetReferenceId__c'', PStr ''line-asset-abc123'')]]))
     [(''latest_line_for_msisdn'',
        \<lparr>qc_fields = Some [''Id'', ''Product2.Name'', ''vlocity_cmt__AssetReferenceId__c''],
         qc_from_table = None,
         qc_where_conditions = Some [''PR_MSISDN__c IN ('{msisdn}')'']\<rparr>),
      (''device_for_line'',
        \<lparr>qc_fields = Some [''Id'', ''Product2.Name''], qc_from_table = Some ''Asset'',
         qc_where_conditions =
           Some [''External_Asset_Reference_Id__c IN ('{asset_reference_id}')'']\<rparr>)]
     ''12218071145''
   = Inl AttributeError"
  by code_simp

section \<open>Properties of the Bulk Executor\<close>

lemma validate_single_msisdn_fst: "fst (validate_single_msisdn post m) = m"
  by (simp add: validate_single_msisdn_def split: sum.splits)

lemma set_alist_update_subset: "set (AList.update k v al) \<subseteq> insert (k, v) (set al)"
  by (induction al) auto

lemma batch_fold:
  "distinct (map fst acc) \<Longrightarrow>
   distinct (map fst (foldl (\<lambda>results m. AList.update m (f m) results) acc ms))
   \<and> fst ` set (foldl (\<lambda>results m. AList.update m (f m) results) acc ms)
        = fst ` set acc \<union> set ms
   \<and> snd ` set (foldl (\<lambda>results m. AList.update m (f m) results) acc ms)
        \<subseteq> snd ` set acc \<union> f ` set ms"
proof (induction ms arbitrary: acc)
  case Nil
  then show ?case by simp
next
  case (Cons m ms)
  have d: "distinct (map fst (AList.update m (f m) acc))"
    using Cons.prems by (simp add: distinct_update)
  have k: "fst ` set (AList.update m (f m) acc) = insert m (fst ` set acc)"
    by (simp add: dom_update)
  have v: "snd ` set (AList.update m (f m) acc) \<subseteq> insert (f m) (snd ` set acc)"
    using set_alist_update_subset[of m "f m" acc] by force
  from Cons.IH[OF d]
  have ih1: "distinct (map fst (foldl (\<lambda>results m. AList.update m (f m) results)
                (AList.update m (f m) acc) ms))"
    and ih2: "fst ` set (foldl (\<lambda>results m. AList.update m (f m) results)
                (AList.update m (f m) acc) ms)
        = fst ` set (AList.update m (f m) acc) \<union> set ms"
    and ih3: "snd ` set (foldl (\<lambda>results m. AList.update m (f m) results)
                (AList.update m (f m) acc) ms)
        \<subseteq> snd ` set (AList.update m (f m) acc) \<union> f ` set ms"
    by blast+
  have "fst ` set (foldl (\<lambda>results m. AList.update m (f m) results) acc (m # ms))
        = fst ` set acc \<union> set (m # ms)"
    using ih2 k by auto
  moreover have "snd ` set (foldl (\<lambda>results m. AList.update m (f m) results) acc (m # ms))
        \<subseteq> snd ` set acc \<union> f ` set (m # ms)"
    using ih3 v by auto
  moreover have "distinct (map fst (foldl (\<lambda>results m. AList.update m (f m) results) acc (m # ms)))"
    using ih1 by simp
  ultimately show ?case by blast
qed

lemma batch_results:
  "distinct (map fst (validate_msisdns_batch post completed))
   \<and> fst ` set (validate_msisdns_batch post completed) = set completed
   \<and> snd ` set (validate_msisdns_batch post completed)
        \<subseteq> (\<lambda>m. snd (validate_single_msisdn post m)) ` set completed"
  using batch_fold[of "[]" "\<lambda>m. snd (validate_single_msisdn post m)" completed]
  by (simp add: validate_msisdns_batch_def validate_single_msisdn_fst)

lemma batch_length:
  assumes "distinct completed"
  shows "length (validate_msisdns_batch post completed) = length completed"
proof -
  have "length (validate_msisdns_batch post completed)
          = card (set (map fst (validate_msisdns_batch post completed)))"
    using batch_results[of post completed] by (metis distinct_card length_map)
  also have "\<dots> = card (set completed)"
    using batch_results[of post completed] by simp
  also have "\<dots> = length completed"
    using assms by (simp add: distinct_card)
  finally show ?thesis .
qed

lemma count_successful_dicts:
  "\<forall>r\<in>set rs. is_dict r \<Longrightarrow>
   count_successful rs =
     Inr (int (length (filter (\<lambda>r. py_get r ''status'' \<noteq> Inr (PStr ''error'')) rs)))"
proof (induction rs)
  case Nil
  then show ?case by simp
next
  case (Cons r rs)
  then obtain d where d: "r = PDict d" by (cases r) auto
  have eq: "py_eq v (PStr ''error'') \<longleftrightarrow> v = PStr ''error''" for v
    by (cases v) auto
  show ?case
    using Cons d by (simp add: bind_exn_def py_get_def eq)
qed

lemma py_round2_100: "py_round2 100 = 100"
  by (simp add: py_round2_def)


lemma format_results_all_successful:
  assumes len: "length validation_results = length grouped_orders"
    and ne: "grouped_orders \<noteq> []"
    and ok: "\<forall>r\<in>snd ` set validation_results.
               is_dict r \<and> py_get r ''status'' \<noteq> Inr (PStr ''error'')"
  shows "format_results grouped_orders validation_results fmt =
           Inr \<lparr>total_msisdns = int (length grouped_orders),
                successful_validations = int (length grouped_orders),
                failed_validations = 0,
                success_rate = 100,
                output_format = fmt\<rparr>"
proof -
  have dicts: "\<forall>r\<in>set (map snd validation_results). is_dict r"
    using ok by simp
  have all: "filter (\<lambda>r. py_get r ''status'' \<noteq> Inr (PStr ''error'')) (map snd validation_results)
               = map snd validation_results"
    using ok by (simp add: filter_id_conv)
  have count: "count_successful (map snd validation_results) = Inr (int (length grouped_orders))"
    using count_successful_dicts[OF dicts] all len by simp
  have pos: "0 < length grouped_orders"
    using ne by simp
  then have rate: "real (length grouped_orders) / real (length grouped_orders) * 100 = 100"
    by simp
  show ?thesis
    using pos by (simp add: format_results_def Let_def count bind_exn_def rate py_round2_100)
qed

text \<open>
  Claim C9.  When the aggregation receives one result per grouped identifier, the batch
  is not empty and every result is a mapping whose \<open>status\<close> is not \<open>error\<close>, the reported
  \<open>success_rate\<close> is 100; for the empty batch it is 0, and the aggregation returns (it
  does not divide).
\<close>

theorem format_results_success_rate:
  "(length validation_results = length grouped_orders \<and> grouped_orders \<noteq> []
      \<and> (\<forall>r\<in>snd ` set validation_results.
             is_dict r \<and> py_get r ''status'' \<noteq> Inr (PStr ''error''))
      \<longrightarrow> (\<exists>s. format_results grouped_orders validation_results fmt = Inr s
                 \<and> success_rate s = 100))
   \<and> (\<exists>s. format_results [] [] fmt = Inr s \<and> success_rate s = 0)"
proof -
  have empty: "\<exists>s. format_results [] [] fmt = Inr s \<and> success_rate s = 0"
    by (simp add: format_results_def Let_def bind_exn_def)
  show ?thesis
    using format_results_all_successful[of validation_results grouped_orders fmt] empty
    by simp
qed

theorem format_results_success_rate_witness:
  "\<exists>s. format_results
          [(''12218071145'', \<lparr>PR_MSISDN__c = Some ''12218071145'', Order = None, CreatedDate = None\<rparr>),
           (''12218071146'', \<lparr>PR_MSISDN__c = Some ''12218071146'', Order = None, CreatedDate = None\<rparr>)]
          [(''12218071146'', PDict [(''status'', PStr ''success'')]),
           (''12218071145'', PDict [(''status'', PStr ''success'')])]
          ''json'' = Inr s
       \<and> success_rate s = 100"
  using format_results_success_rate
    [of "[(''12218071146'', PDict [(''status'', PStr ''success'')]),
          (''12218071145'', PDict [(''status'', PStr ''success'')])]"
        "[(''12218071145'', \<lparr>PR_MSISDN__c = Some ''12218071145'', Order = None, CreatedDate = None\<rparr>),
          (''12218071146'', \<lparr>PR_MSISDN__c = Some ''12218071146'', Order = None, CreatedDate = None\<rparr>)]"
        "''json''"]
  by (simp add: py_get_def)

lemma envelope_no_status:
  assumes "(\<exists>e. post m = Inl e) \<or> (\<exists>resp. post m = Inr resp \<and> status_code resp \<noteq> 200)"
  shows "\<exists>err msg. validate_single_msisdn post m =
           (m, PDict [(''error'', PStr err), (''message'', PStr msg)])"
  using assms
  by (auto simp: validate_single_msisdn_def envelope_of_exn_def error_envelope_def
        split: transport_exn.splits)

text \<open>
  Claim C10.  The aggregation counts a result as successful exactly when its \<open>status\<close>
  entry is not \<open>error\<close>.  A transport call that raises or answers with a code other than
  200 yields the envelope \<open>{error, message}\<close>, which has no \<open>status\<close> entry.  So a non-empty
  batch in which every transport call fails reports \<open>success_rate\<close> 100 and
  \<open>failed_validations\<close> 0.
\<close>

theorem transport_failures_count_as_success:
  "((\<forall>r\<in>snd ` set validation_results. is_dict r)
      \<longrightarrow> (\<exists>s. format_results grouped_orders validation_results fmt = Inr s
             \<and> successful_validations s =
                 int (length (filter (\<lambda>r. py_get r ''status'' \<noteq> Inr (PStr ''error''))
                                (map snd validation_results)))))
   \<and> ((\<exists>e. post m = Inl e) \<or> (\<exists>resp. post m = Inr resp \<and> status_code resp \<noteq> 200)
      \<longrightarrow> (\<exists>err msg. validate_single_msisdn post m =
                 (m, PDict [(''error'', PStr err), (''message'', PStr msg)]))
          \<and> py_get (snd (validate_single_msisdn post m)) ''status'' = Inr PNone)
   \<and> (distinct (map fst grouped_orders) \<and> grouped_orders \<noteq> []
       \<and> mset completed = mset (map fst grouped_orders)
       \<and> (\<forall>k\<in>set completed.
             (\<exists>e. post k = Inl e) \<or> (\<exists>resp. post k = Inr resp \<and> status_code resp \<noteq> 200))
      \<longrightarrow> (\<exists>s. format_results grouped_orders (validate_msisdns_batch post completed) fmt = Inr s
             \<and> success_rate s = 100 \<and> failed_validations s = 0
             \<and> successful_validations s = int (length grouped_orders)))"
proof (intro conjI impI)
  assume "\<forall>r\<in>snd ` set validation_results. is_dict r"
  then have "\<forall>r\<in>set (map snd validation_results). is_dict r" by simp
  from count_successful_dicts[OF this]
  show "\<exists>s. format_results grouped_orders validation_results fmt = Inr s
          \<and> successful_validations s =
              int (length (filter (\<lambda>r. py_get r ''status'' \<noteq> Inr (PStr ''error''))
                             (map snd validation_results)))"
    by (simp add: format_results_def Let_def bind_exn_def)
next
  assume "(\<exists>e. post m = Inl e) \<or> (\<exists>resp. post m = Inr resp \<and> status_code resp \<noteq> 200)"
  from envelope_no_status[of post m, OF this]
  show "\<exists>err msg. validate_single_msisdn post m =
          (m, PDict [(''error'', PStr err), (''message'', PStr msg)])" .
next
  assume "(\<exists>e. post m = Inl e) \<or> (\<exists>resp. post m = Inr resp \<and> status_code resp \<noteq> 200)"
  from envelope_no_status[of post m, OF this]
  show "py_get (snd (validate_single_msisdn post m)) ''status'' = Inr PNone"
    by (auto simp: py_get_def)
next
  assume a: "distinct (map fst grouped_orders) \<and> grouped_orders \<noteq> []
       \<and> mset completed = mset (map fst grouped_orders)
       \<and> (\<forall>k\<in>set completed.
             (\<exists>e. post k = Inl e) \<or> (\<exists>resp. post k = Inr resp \<and> status_code resp \<noteq> 200))"
  then have dc: "distinct completed"
    by (metis mset_eq_imp_distinct_iff)
  have lc: "length completed = length grouped_orders"
    using a by (metis mset_eq_length length_map)
  have len: "length (validate_msisdns_batch post completed) = length grouped_orders"
    using batch_length[OF dc] lc by simp
  have ok: "\<forall>r\<in>snd ` set (validate_msisdns_batch post completed).
              is_dict r \<and> py_get r ''status'' \<noteq> Inr (PStr ''error'')"
  proof
    fix r assume "r \<in> snd ` set (validate_msisdns_batch post completed)"
    then obtain k where k: "k \<in> set completed" "r = snd (validate_single_msisdn post k)"
      using batch_results[of post completed] by blast
    then have "(\<exists>e. post k = Inl e) \<or> (\<exists>resp. post k = Inr resp \<and> status_code resp \<noteq> 200)"
      using a by blast
    from envelope_no_status[of post k, OF this] k(2)
    show "is_dict r \<and> py_get r ''status'' \<noteq> Inr (PStr ''error'')"
      by (auto simp: py_get_def)
  qed
  have ne: "grouped_orders \<noteq> []" using a by blast
  show "\<exists>s. format_results grouped_orders (validate_msisdns_batch post completed) fmt = Inr s
          \<and> success_rate s = 100 \<and> failed_validations s = 0
          \<and> successful_validations s = int (length grouped_orders)"
    using format_results_all_successful[OF len ne ok, of fmt] by simp
qed

theorem transport_failures_count_as_success_witness:
  "\<exists>s. format_results
          [(''12218071145'', \<lparr>PR_MSISDN__c = Some ''12218071145'', Order = None, CreatedDate = None\<rparr>),
           (''12218071146'', \<lparr>PR_MSISDN__c = Some ''12218071146'', Order = None, CreatedDate = None\<rparr>)]
          (validate_msisdns_batch (\<lambda>msisdn. Inl (RequestException ''Connection refused''))
             [''12218071146'', ''12218071145''])
          ''json'' = Inr s
       \<and> success_rate s = 100 \<and> failed_validations s = 0 \<and> successful_validations s = 2"
  using transport_failures_count_as_success
    [THEN conjunct2, THEN conjunct2,
     of "[(''12218071145'', \<lparr>PR_MSISDN__c = Some ''12218071145'', Order = None, CreatedDate = None\<rparr>),
          (''12218071146'', \<lparr>PR_MSISDN__c = Some ''12218071146'', Order = None, CreatedDate = None\<rparr>)]"
        "[''12218071146'', ''12218071145'']"
        "\<lambda>msisdn. Inl (RequestException ''Connection refused'')"
        "''json''"]
  by simp

section \<open>The result sets written by the engine\<close>

text \<open>Every reason set \<open>validate_for_msisdn\<close> returns carries one of the three statuses,
  so the verdict reduction of the response assembler applies to it.\<close>

lemma reason_loop_preserves:
  assumes step: "\<And>reason res. run_reason_checks cfg reason assets = Inr res \<Longrightarrow> P res"
    and acc: "\<forall>d\<in>snd ` set acc. P d"
    and run: "reason_loop cfg assets reasons acc = Inr out"
  shows "\<forall>d\<in>snd ` set out. P d"
  using acc run
proof (induction reasons arbitrary: acc)
  case Nil
  then show ?case by simp
next
  case (Cons r reasons)
  show ?case
  proof (cases "r = None \<or> r = Some []")
    case True
    then have "reason_loop cfg assets reasons acc = Inr out"
      using Cons.prems(2) by auto
    from Cons.IH[OF Cons.prems(1) this] show ?thesis .
  next
    case False
    then obtain reason where r: "r = Some reason" "reason \<noteq> []" by auto
    obtain res where res: "run_reason_checks cfg reason assets = Inr res"
      using run_reason_checks_total by blast
    have "snd ` set (AList.update reason res acc) \<subseteq> insert res (snd ` set acc)"
      using set_alist_update_subset[of reason res acc] by force
    then have acc': "\<forall>d\<in>snd ` set (AList.update reason res acc). P d"
      using Cons.prems(1) step[OF res] by blast
    have "reason_loop cfg assets reasons (AList.update reason res acc) = Inr out"
      using Cons.prems(2) r res by (simp add: bind_exn_def)
    from Cons.IH[OF acc' this] show ?thesis .
  qed
qed

lemma validate_for_msisdn_statuses:
  assumes "validate_for_msisdn cfg assets order_reasons = Inr v"
  shows "rs_status (v_basic v) \<in> {Some ''PASSED'', Some ''FAILED''}
         \<and> (\<forall>d\<in>snd ` set (v_reason_based v).
                rs_status d \<in> {Some ''PASSED'', Some ''FAILED'', Some ''SKIPPED''})"
proof -
  obtain basic where basic: "run_basic_checks cfg assets = Inr basic"
    "rs_status basic \<in> {Some ''PASSED'', Some ''FAILED''}"
    using run_basic_checks_total by blast
  obtain out where out: "reason_loop cfg assets order_reasons [] = Inr out"
    using reason_loop_total[of cfg assets order_reasons "[]"] by blast
  have v: "v = \<lparr>v_basic = basic, v_reason_based = out\<rparr>"
    using assms basic(1) out by (simp add: validate_for_msisdn_def bind_exn_def)
  have step: "rs_status res \<in> {Some ''PASSED'', Some ''FAILED'', Some ''SKIPPED''}"
    if "run_reason_checks cfg reason assets = Inr res" for reason res
    using that run_reason_checks_total[of cfg reason assets] by auto
  have "\<forall>d\<in>snd ` set out. rs_status d \<in> {Some ''PASSED'', Some ''FAILED'', Some ''SKIPPED''}"
    by (rule reason_loop_preserves[where acc = "[]", OF step _ out]) simp_all
  then show ?thesis
    using v basic(2) by simp
qed

end
